theory Spec2Isabelle
  imports Complex_Main
begin

section \<open>Python values\<close>

subsection \<open>Strings\<close>

text \<open>
  A Python \<open>str\<close> is a sequence of Unicode code points, so it is modelled as a list of
  natural numbers. \<open>py\<close> turns an Isabelle string literal (ASCII) into such a sequence.
\<close>

type_synonym pystr = "nat list"

definition py :: "string \<Rightarrow> pystr" where
  "py s = map of_char s"

text \<open>
  \<open>str.lower()\<close>. Only the ASCII letters are mapped; every other code point is left as it
  is (the full Unicode case mapping is outside the model).
\<close>

definition lower_cp :: "nat \<Rightarrow> nat" where
  "lower_cp c = (if 65 \<le> c \<and> c \<le> 90 then c + 32 else c)"

definition py_lower :: "pystr \<Rightarrow> pystr" where
  "py_lower s = map lower_cp s"

text \<open>\<open>s.startswith(p)\<close> and the substring test \<open>p in s\<close>.\<close>

fun starts_with :: "'a list \<Rightarrow> 'a list \<Rightarrow> bool" where
  "starts_with [] s = True"
| "starts_with (p # ps) [] = False"
| "starts_with (p # ps) (c # cs) = (p = c \<and> starts_with ps cs)"

fun str_in :: "'a list \<Rightarrow> 'a list \<Rightarrow> bool" where
  "str_in p [] = (p = [])"
| "str_in p (c # cs) = (starts_with p (c # cs) \<or> str_in p cs)"

text \<open>\<open>sep.join(xs)\<close>.\<close>

fun py_join :: "pystr \<Rightarrow> pystr list \<Rightarrow> pystr" where
  "py_join sep [] = []"
| "py_join sep [x] = x"
| "py_join sep (x # y # ys) = x @ sep @ py_join sep (y # ys)"

text \<open>\<open>str(n)\<close> for a non-negative integer, and for any integer.\<close>

fun str_nat :: "nat \<Rightarrow> pystr" where
  "str_nat n = (if n < 10 then [48 + n] else str_nat (n div 10) @ [48 + n mod 10])"

declare str_nat.simps [simp del]

definition str_int :: "int \<Rightarrow> pystr" where
  "str_int i = (if i < 0 then 45 # str_nat (nat (- i)) else str_nat (nat i))"

subsection \<open>Objects produced by \<open>json.loads\<close>\<close>

text \<open>
  A float keeps the exact value of its literal; the only thing the program observes of a
  float is whether it is zero, which for an IEEE double means that the literal rounds to
  zero: its magnitude is at most \<open>2 ^ -1075\<close>.
\<close>

datatype pyfloat = Finite rat | NaN | Infinity bool

datatype json =
    JNull
  | JBool bool
  | JInt int
  | JFloat pyfloat
  | JStr pystr
  | JList "json list"
  | JDict "(pystr \<times> json) list"

datatype py_error = TypeError | AttributeError | KeyError | OverflowError

definition py_bind :: "'e + 'a \<Rightarrow> ('a \<Rightarrow> 'e + 'b) \<Rightarrow> 'e + 'b" where
  "py_bind m f = (case m of Inl e \<Rightarrow> Inl e | Inr x \<Rightarrow> f x)"

fun float_is_zero :: "pyfloat \<Rightarrow> bool" where
  "float_is_zero (Finite q) = (\<bar>q\<bar> * 2 ^ 1075 \<le> 1)"
| "float_is_zero NaN = False"
| "float_is_zero (Infinity neg) = False"

text \<open>Truth value of an object (\<open>not x\<close> is its negation).\<close>

fun truthy :: "json \<Rightarrow> bool" where
  "truthy JNull = False"
| "truthy (JBool b) = b"
| "truthy (JInt i) = (i \<noteq> 0)"
| "truthy (JFloat f) = (\<not> float_is_zero f)"
| "truthy (JStr s) = (s \<noteq> [])"
| "truthy (JList xs) = (xs \<noteq> [])"
| "truthy (JDict kvs) = (kvs \<noteq> [])"

text \<open>
  \<open>key in obj\<close> for a string \<open>key\<close>: key membership in a dict, element membership in a
  list, substring test in a string, TypeError for every other object.
\<close>

fun py_contains :: "json \<Rightarrow> pystr \<Rightarrow> py_error + bool" where
  "py_contains (JDict kvs) k = Inr (map_of kvs k \<noteq> None)"
| "py_contains (JList xs) k = Inr (JStr k \<in> set xs)"
| "py_contains (JStr s) k = Inr (str_in k s)"
| "py_contains _ k = Inl TypeError"

text \<open>\<open>obj[key]\<close> for a string \<open>key\<close>.\<close>

fun py_getitem :: "json \<Rightarrow> pystr \<Rightarrow> py_error + json" where
  "py_getitem (JDict kvs) k = (case map_of kvs k of None \<Rightarrow> Inl KeyError | Some v \<Rightarrow> Inr v)"
| "py_getitem _ k = Inl TypeError"

text \<open>\<open>obj.get(key, default)\<close>: only a dict has the method.\<close>

fun py_get :: "json \<Rightarrow> pystr \<Rightarrow> json \<Rightarrow> py_error + json" where
  "py_get (JDict kvs) k d = Inr (case map_of kvs k of None \<Rightarrow> d | Some v \<Rightarrow> v)"
| "py_get _ k d = Inl AttributeError"

text \<open>
  \<open>obj.count(c)\<close> for a one-character string \<open>c\<close>: occurrences of the character in a
  string, of the element in a list; no other object has the method.
\<close>

fun py_count :: "json \<Rightarrow> nat \<Rightarrow> py_error + nat" where
  "py_count (JStr s) c = Inr (count_list s c)"
| "py_count (JList xs) c = Inr (count_list xs (JStr [c]))"
| "py_count _ c = Inl AttributeError"

text \<open>
  \<open>(a + b).lower()\<close>. Two strings concatenate and are lower-cased. Two lists, or two
  numbers, add to an object without a \<open>lower\<close> method (an int too large for a double
  raises OverflowError when added to a float). Every other pair cannot be added.
\<close>

fun is_number :: "json \<Rightarrow> bool" where
  "is_number (JBool b) = True"
| "is_number (JInt i) = True"
| "is_number (JFloat f) = True"
| "is_number _ = False"

fun int_overflows_float :: "json \<Rightarrow> bool" where
  "int_overflows_float (JInt i) = (2 ^ 1024 - 2 ^ 970 \<le> \<bar>i\<bar>)"
| "int_overflows_float _ = False"

fun is_float :: "json \<Rightarrow> bool" where
  "is_float (JFloat f) = True"
| "is_float _ = False"

fun py_add_lower :: "json \<Rightarrow> json \<Rightarrow> py_error + pystr" where
  "py_add_lower (JStr a) (JStr b) = Inr (py_lower (a @ b))"
| "py_add_lower (JList a) (JList b) = Inl AttributeError"
| "py_add_lower a b =
     (if is_number a \<and> is_number b then
        (if (int_overflows_float a \<and> is_float b) \<or> (is_float a \<and> int_overflows_float b)
         then Inl OverflowError else Inl AttributeError)
      else Inl TypeError)"

section \<open>The validator (validator.py)\<close>

text \<open>
  The design system document: \<open>tokens\<close> maps token names to string values (\<open>rules\<close> is
  not read by the program).
\<close>

record design_system =
  tokens :: "(pystr \<times> pystr) list"

text \<open>\<open>tokens.get(name, default)\<close>.\<close>

definition token_get :: "design_system \<Rightarrow> pystr \<Rightarrow> pystr \<Rightarrow> pystr" where
  "token_get ds name dflt = (case map_of (tokens ds) name of None \<Rightarrow> dflt | Some v \<Rightarrow> v)"

text \<open>One round of the loop \<open>for part in ["html", "typescript"]\<close>, and the loop.\<close>

definition required_part :: "json \<Rightarrow> pystr \<Rightarrow> pystr list \<Rightarrow> py_error + pystr list" where
  "required_part code_dict part errors =
     py_bind (py_contains code_dict part) (\<lambda>present.
       if \<not> present then Inr (errors @ [py ''Missing or empty component part: '' @ part])
       else py_bind (py_getitem code_dict part) (\<lambda>v.
         if \<not> truthy v then Inr (errors @ [py ''Missing or empty component part: '' @ part])
         else Inr errors))"

fun required_parts :: "json \<Rightarrow> pystr list \<Rightarrow> pystr list \<Rightarrow> py_error + pystr list" where
  "required_parts code_dict [] errors = Inr errors"
| "required_parts code_dict (part # parts) errors =
     py_bind (required_part code_dict part errors) (required_parts code_dict parts)"

definition required_fields :: "json \<Rightarrow> py_error + pystr list" where
  "required_fields code_dict =
     py_bind (required_parts code_dict [py ''html'', py ''typescript''] []) (\<lambda>errors.
       py_bind (py_contains code_dict (py ''css'')) (\<lambda>present.
         if \<not> present then Inr (errors @ [py ''Missing component part: css''])
         else Inr errors))"

text \<open>\<open>_check_syntax\<close>: one round of \<open>for key in ["typescript", "css"]\<close>, and the loop.\<close>

definition check_syntax_key :: "json \<Rightarrow> pystr \<Rightarrow> pystr list \<Rightarrow> py_error + pystr list" where
  "check_syntax_key code_dict key syntax_errors =
     py_bind (py_get code_dict key (JStr [])) (\<lambda>content.
       py_bind (py_count content 123) (\<lambda>n_open.
       py_bind (py_count content 125) (\<lambda>n_close.
         let errs1 = (if n_open \<noteq> n_close
                      then syntax_errors @ [py ''Unbalanced curly braces in '' @ key]
                      else syntax_errors)
         in py_bind (py_count content 40) (\<lambda>p_open.
            py_bind (py_count content 41) (\<lambda>p_close.
              Inr (if p_open \<noteq> p_close
                   then errs1 @ [py ''Unbalanced parentheses in '' @ key]
                   else errs1))))))"

fun check_syntax_keys :: "json \<Rightarrow> pystr list \<Rightarrow> pystr list \<Rightarrow> py_error + pystr list" where
  "check_syntax_keys code_dict [] syntax_errors = Inr syntax_errors"
| "check_syntax_keys code_dict (key # keys) syntax_errors =
     py_bind (check_syntax_key code_dict key syntax_errors) (check_syntax_keys code_dict keys)"

definition check_syntax :: "json \<Rightarrow> py_error + pystr list" where
  "check_syntax code_dict = check_syntax_keys code_dict [py ''typescript'', py ''css''] []"

text \<open>\<open>_check_design_compliance\<close>.\<close>

definition check_design_compliance :: "design_system \<Rightarrow> json \<Rightarrow> py_error + pystr list" where
  "check_design_compliance ds code_dict =
     (let primary_color = py_lower (token_get ds (py ''primary-color'') [])
      in py_bind (py_get code_dict (py ''html'') (JStr [])) (\<lambda>html.
         py_bind (py_get code_dict (py ''css'') (JStr [])) (\<lambda>css.
         py_bind (py_add_lower html css) (\<lambda>full_code.
           Inr (if primary_color \<noteq> [] \<and> \<not> str_in primary_color full_code
                then [py ''Design Token Violation: Primary color '' @ [39] @ primary_color
                        @ [39] @ py '' was not used.'']
                else [])))))"

text \<open>
  The part of \<open>validate\<close> that follows a successful \<open>json.loads\<close>. The result is the
  pair \<open>(errors, code_dict)\<close>, or the exception that leaves the function.
\<close>

definition validate_parsed :: "design_system \<Rightarrow> json \<Rightarrow> py_error + (pystr list \<times> json option)" where
  "validate_parsed ds code_dict =
     py_bind (required_fields code_dict) (\<lambda>errors.
       if errors = [] then
         py_bind (check_syntax code_dict) (\<lambda>syntax_errors.
         py_bind (check_design_compliance ds code_dict) (\<lambda>design_errors.
           Inr (errors @ syntax_errors @ design_errors, Some code_dict)))
       else Inr (errors, Some code_dict))"

section \<open>Reading the raw text (json.loads and the cleaning before it)\<close>

subsection \<open>Markdown fences and surrounding white space\<close>

text \<open>
  \<open>re.sub(r"```json\n?|\n?```", "", raw_json)\<close>: scanning from the left, at every position
  the first alternative (the fence with its language tag and an optional newline) is
  tried before the second (an optional newline and a bare fence); a match is deleted.
\<close>

fun fence_sub :: "pystr \<Rightarrow> pystr" where
  "fence_sub [] = []"
| "fence_sub (c # cs) =
     (if starts_with (py ''```json'') (c # cs) then
        (if starts_with [10] (drop 6 cs) then fence_sub (drop 7 cs) else fence_sub (drop 6 cs))
      else if starts_with (10 # py ''```'') (c # cs) then fence_sub (drop 3 cs)
      else if starts_with (py ''```'') (c # cs) then fence_sub (drop 2 cs)
      else c # fence_sub cs)"

text \<open>\<open>str.isspace\<close> on one code point, and \<open>str.strip()\<close>.\<close>

definition is_space :: "nat \<Rightarrow> bool" where
  "is_space c =
     ((9 \<le> c \<and> c \<le> 13) \<or> (28 \<le> c \<and> c \<le> 32) \<or> c = 133 \<or> c = 160 \<or> c = 5760
      \<or> (8192 \<le> c \<and> c \<le> 8202) \<or> c = 8232 \<or> c = 8233 \<or> c = 8239 \<or> c = 8287
      \<or> c = 12288)"

definition py_strip :: "pystr \<Rightarrow> pystr" where
  "py_strip s = rev (dropWhile is_space (rev (dropWhile is_space s)))"

subsection \<open>Tokens\<close>

datatype token =
    TLBrace | TRBrace | TLBracket | TRBracket | TColon | TComma
  | TString pystr
  | TValue json

definition hex_val :: "nat \<Rightarrow> nat option" where
  "hex_val c =
     (if 48 \<le> c \<and> c \<le> 57 then Some (c - 48)
      else if 97 \<le> c \<and> c \<le> 102 then Some (c - 87)
      else if 65 \<le> c \<and> c \<le> 70 then Some (c - 55)
      else None)"

text \<open>The value of the four hexadecimal digits at the head of the input.\<close>

fun hex4 :: "pystr \<Rightarrow> nat option" where
  "hex4 (a # b # c # d # rest) =
     (case (hex_val a, hex_val b, hex_val c, hex_val d) of
        (Some w, Some x, Some y, Some z) \<Rightarrow> Some (((w * 16 + x) * 16 + y) * 16 + z)
      | _ \<Rightarrow> None)"
| "hex4 _ = None"

text \<open>The character a one-letter escape stands for.\<close>

definition unescape :: "nat \<Rightarrow> nat option" where
  "unescape e =
     (if e = 34 then Some 34 else if e = 92 then Some 92 else if e = 47 then Some 47
      else if e = 98 then Some 8 else if e = 102 then Some 12 else if e = 110 then Some 10
      else if e = 114 then Some 13 else if e = 116 then Some 9 else None)"

definition str_cons :: "nat \<Rightarrow> nat \<Rightarrow> (pystr \<times> nat) option \<Rightarrow> (pystr \<times> nat) option" where
  "str_cons ch k r = (case r of None \<Rightarrow> None | Some (s, n) \<Rightarrow> Some (ch # s, n + k))"

text \<open>
  The string scanner (strict mode), started after the opening quote. It returns the decoded
  string and the number of characters read, closing quote included. A raw control character
  ends the scan with an error; a \<open>\u\<close> escape of a high surrogate that is followed by a
  \<open>\u\<close> escape of a low surrogate is joined with it into one code point.
\<close>

fun scan_string :: "pystr \<Rightarrow> (pystr \<times> nat) option" where
  "scan_string [] = None"
| "scan_string (c # cs) =
     (if c = 34 then Some ([], 1)
      else if c = 92 then
        (case cs of
           [] \<Rightarrow> None
         | e # es \<Rightarrow>
             if e = 117 then
               (case hex4 es of
                  None \<Rightarrow> None
                | Some u \<Rightarrow>
                    if 55296 \<le> u \<and> u \<le> 56319 \<and> starts_with [92, 117] (drop 4 es) then
                      (case hex4 (drop 6 es) of
                         None \<Rightarrow> None
                       | Some u2 \<Rightarrow>
                           if 56320 \<le> u2 \<and> u2 \<le> 57343
                           then str_cons (65536 + ((u - 55296) * 1024 + (u2 - 56320))) 12
                                  (scan_string (drop 10 es))
                           else str_cons u 6 (scan_string (drop 4 es)))
                    else str_cons u 6 (scan_string (drop 4 es)))
             else
               (case unescape e of
                  None \<Rightarrow> None
                | Some ch \<Rightarrow> str_cons ch 2 (scan_string es)))
      else if c < 32 then None
      else str_cons c 1 (scan_string cs))"

definition is_digit :: "nat \<Rightarrow> bool" where
  "is_digit c = (48 \<le> c \<and> c \<le> 57)"

text \<open>The value of a run of decimal digits.\<close>

definition digits_val :: "pystr \<Rightarrow> nat" where
  "digits_val ds = foldl (\<lambda>acc d. acc * 10 + (d - 48)) 0 ds"

text \<open>
  The number scanner: an optional minus sign, then \<open>0\<close> or a run of digits that does not
  start with \<open>0\<close>, then an optional fraction (a dot and at least one digit) and an optional
  exponent (\<open>e\<close> or \<open>E\<close>, an optional sign, at least one digit). The number is a float when
  it has a fraction or an exponent. It returns the value and the number of characters read.
\<close>

definition scan_number :: "pystr \<Rightarrow> (json \<times> nat) option" where
  "scan_number s =
     (let neg = starts_with [45] s;
          s1 = (if neg then drop 1 s else s);
          ipart = (if starts_with [48] s1 then [48] else takeWhile is_digit s1);
          s2 = drop (length ipart) s1;
          fpart = (if starts_with [46] s2 then takeWhile is_digit (drop 1 s2) else []);
          s3 = (if fpart = [] then s2 else drop (Suc (length fpart)) s2);
          has_e = (starts_with [101] s3 \<or> starts_with [69] s3);
          s4 = drop 1 s3;
          esign = (if has_e \<and> (starts_with [43] s4 \<or> starts_with [45] s4) then take 1 s4 else []);
          epart = (if has_e then takeWhile is_digit (drop (length esign) s4) else []);
          elen = (if epart = [] then 0 else Suc (length esign + length epart));
          n = (if neg then 1 else 0) + length ipart + (if fpart = [] then 0 else Suc (length fpart)) + elen;
          mant = of_nat (digits_val ipart) + of_nat (digits_val fpart) / 10 ^ length fpart;
          scaled = (if esign = [45] then mant / 10 ^ digits_val epart else mant * 10 ^ digits_val epart);
          int_val = (if neg then - int (digits_val ipart) else int (digits_val ipart))
      in if ipart = [] then None
         else if fpart = [] \<and> epart = [] then Some (JInt int_val, n)
         else Some (JFloat (Finite (if neg then - scaled else scaled)), n))"

text \<open>
  The token that starts with the character \<open>c\<close>, followed by \<open>cs\<close>, and the number of
  characters of \<open>cs\<close> that belong to it.
\<close>

definition next_token :: "nat \<Rightarrow> pystr \<Rightarrow> (token \<times> nat) option" where
  "next_token c cs =
     (if c = 123 then Some (TLBrace, 0)
      else if c = 125 then Some (TRBrace, 0)
      else if c = 91 then Some (TLBracket, 0)
      else if c = 93 then Some (TRBracket, 0)
      else if c = 58 then Some (TColon, 0)
      else if c = 44 then Some (TComma, 0)
      else if c = 34 then
        (case scan_string cs of None \<Rightarrow> None | Some (s, n) \<Rightarrow> Some (TString s, n))
      else if starts_with (py ''null'') (c # cs) then Some (TValue JNull, 3)
      else if starts_with (py ''true'') (c # cs) then Some (TValue (JBool True), 3)
      else if starts_with (py ''false'') (c # cs) then Some (TValue (JBool False), 4)
      else if starts_with (py ''NaN'') (c # cs) then Some (TValue (JFloat NaN), 2)
      else if starts_with (py ''Infinity'') (c # cs) then Some (TValue (JFloat (Infinity False)), 7)
      else if starts_with (py ''-Infinity'') (c # cs) then Some (TValue (JFloat (Infinity True)), 8)
      else (case scan_number (c # cs) of None \<Rightarrow> None | Some (v, n) \<Rightarrow> Some (TValue v, n - 1)))"

definition is_json_ws :: "nat \<Rightarrow> bool" where
  "is_json_ws c = (c = 32 \<or> c = 9 \<or> c = 10 \<or> c = 13)"

fun lex :: "pystr \<Rightarrow> token list option" where
  "lex [] = Some []"
| "lex (c # cs) =
     (if is_json_ws c then lex cs
      else (case next_token c cs of
              None \<Rightarrow> None
            | Some (t, n) \<Rightarrow>
                (case lex (drop n cs) of None \<Rightarrow> None | Some ts \<Rightarrow> Some (t # ts))))"

subsection \<open>Values\<close>

text \<open>\<open>d[k] = v\<close> on a dict under construction: a repeated key keeps its place and takes the new value.\<close>

fun dict_set :: "(pystr \<times> json) list \<Rightarrow> pystr \<Rightarrow> json \<Rightarrow> (pystr \<times> json) list" where
  "dict_set [] k v = [(k, v)]"
| "dict_set ((k', v') # kvs) k v = (if k' = k then (k, v) # kvs else (k', v') # dict_set kvs k v)"

text \<open>
  The grammar, read token by token with a stack of the containers that are still open:
  a list with its elements so far, a dict with its items so far, or a dict whose next key
  has been read and waits for its value.
\<close>

datatype frame =
    FList "json list"
  | FDict "(pystr \<times> json) list"
  | FKey "(pystr \<times> json) list" pystr

datatype pmode =
    MValue
  | MFirstElem
  | MFirstKey
  | MKey
  | MColon
  | MAfter
  | MDone json
  | MError

text \<open>A value is complete: it becomes the result, a list element or the value of the pending key.\<close>

fun attach :: "json \<Rightarrow> frame list \<Rightarrow> pmode \<times> frame list" where
  "attach v [] = (MDone v, [])"
| "attach v (FList xs # st) = (MAfter, FList (xs @ [v]) # st)"
| "attach v (FKey kvs k # st) = (MAfter, FDict (dict_set kvs k v) # st)"
| "attach v (FDict kvs # st) = (MError, st)"

fun start_value :: "token \<Rightarrow> frame list \<Rightarrow> pmode \<times> frame list" where
  "start_value TLBracket st = (MFirstElem, FList [] # st)"
| "start_value TLBrace st = (MFirstKey, FDict [] # st)"
| "start_value (TString s) st = attach (JStr s) st"
| "start_value (TValue v) st = attach v st"
| "start_value _ st = (MError, st)"

fun read_key :: "token \<Rightarrow> frame list \<Rightarrow> pmode \<times> frame list" where
  "read_key (TString k) (FDict kvs # st) = (MColon, FKey kvs k # st)"
| "read_key _ st = (MError, st)"

fun parse_step :: "pmode \<Rightarrow> frame list \<Rightarrow> token \<Rightarrow> pmode \<times> frame list" where
  "parse_step MValue st t = start_value t st"
| "parse_step MFirstElem (FList xs # st) TRBracket = attach (JList xs) st"
| "parse_step MFirstElem st t = start_value t st"
| "parse_step MFirstKey (FDict kvs # st) TRBrace = attach (JDict kvs) st"
| "parse_step MFirstKey st t = read_key t st"
| "parse_step MKey st t = read_key t st"
| "parse_step MColon st TColon = (MValue, st)"
| "parse_step MAfter (FList xs # st) TComma = (MValue, FList xs # st)"
| "parse_step MAfter (FList xs # st) TRBracket = attach (JList xs) st"
| "parse_step MAfter (FDict kvs # st) TComma = (MKey, FDict kvs # st)"
| "parse_step MAfter (FDict kvs # st) TRBrace = attach (JDict kvs) st"
| "parse_step _ st t = (MError, st)"

fun parse_tokens :: "pmode \<Rightarrow> frame list \<Rightarrow> token list \<Rightarrow> json option" where
  "parse_tokens (MDone v) st [] = Some v"
| "parse_tokens m st [] = None"
| "parse_tokens m st (t # ts) = (case parse_step m st t of (m', st') \<Rightarrow> parse_tokens m' st' ts)"

text \<open>\<open>json.loads\<close>: \<open>None\<close> stands for JSONDecodeError.\<close>

definition json_loads :: "pystr \<Rightarrow> json option" where
  "json_loads s = (case lex s of None \<Rightarrow> None | Some ts \<Rightarrow> parse_tokens MValue [] ts)"

subsection \<open>validate\<close>

definition clean_raw :: "pystr \<Rightarrow> pystr" where
  "clean_raw raw_json = py_strip (fence_sub raw_json)"

definition validate :: "design_system \<Rightarrow> pystr \<Rightarrow> py_error + (pystr list \<times> json option)" where
  "validate ds raw_json =
     (case json_loads (clean_raw raw_json) of
        None \<Rightarrow> Inr ([py ''Invalid JSON format or non-JSON output generated.''], None)
      | Some code_dict \<Rightarrow> validate_parsed ds code_dict)"

section \<open>The generator (generator.py)\<close>

subsection \<open>json.dumps on dicts of strings\<close>

definition hex_digit :: "nat \<Rightarrow> nat" where
  "hex_digit d = (if d < 10 then 48 + d else 87 + d)"

text \<open>\<open>'\\u{0:04x}'.format(n)\<close>.\<close>

definition u_escape :: "nat \<Rightarrow> pystr" where
  "u_escape n =
     [92, 117, hex_digit (n div 4096 mod 16), hex_digit (n div 256 mod 16),
      hex_digit (n div 16 mod 16), hex_digit (n mod 16)]"

text \<open>
  The replacement of one character under \<open>ensure_ascii\<close>: the quote, the backslash and
  every character outside the range from the space to the tilde are escaped, a code point
  above \<open>0xFFFF\<close> as a surrogate pair.
\<close>

definition esc_char :: "nat \<Rightarrow> pystr" where
  "esc_char c =
     (if c = 34 then [92, 34] else if c = 92 then [92, 92]
      else if c = 10 then [92, 110] else if c = 13 then [92, 114] else if c = 9 then [92, 116]
      else if c = 8 then [92, 98] else if c = 12 then [92, 102]
      else if 32 \<le> c \<and> c \<le> 126 then [c]
      else if c < 65536 then u_escape c
      else u_escape (55296 + (c - 65536) div 1024 mod 1024) @ u_escape (56320 + (c - 65536) mod 1024))"

definition escape :: "pystr \<Rightarrow> pystr" where
  "escape s = concat (map esc_char s)"

definition dumps_str :: "pystr \<Rightarrow> pystr" where
  "dumps_str s = 34 # escape s @ [34]"

definition dumps_item :: "pystr \<times> pystr \<Rightarrow> pystr" where
  "dumps_item kv = dumps_str (fst kv) @ py '': '' @ dumps_str (snd kv)"

text \<open>\<open>json.dumps(d)\<close> and \<open>json.dumps(d, indent=2)\<close> for a dict whose keys and values are strings.\<close>

definition dumps :: "(pystr \<times> pystr) list \<Rightarrow> pystr" where
  "dumps kvs = py ''{'' @ py_join (py '', '') (map dumps_item kvs) @ py ''}''"

definition dumps_indent2 :: "(pystr \<times> pystr) list \<Rightarrow> pystr" where
  "dumps_indent2 kvs =
     (if kvs = [] then py ''{}''
      else py ''{\<newline>'' @ py_join (py '',\<newline>'') (map (\<lambda>kv. py ''  '' @ dumps_item kv) kvs)
           @ py ''\<newline>}'')"

subsection \<open>build_prompt\<close>

definition build_prompt :: "design_system \<Rightarrow> pystr \<Rightarrow> pystr" where
  \<open>build_prompt ds user_prompt =
     (let token_str = dumps_indent2 (tokens ds) in
     py ''You are an expert Angular & Tailwind CSS developer.\<newline>'' @
     py ''TASK: Generate a valid Angular component based on the user's request.\<newline>'' @
     py ''\<newline>'' @
     py ''DESIGN SYSTEM (You MUST use these exact values):\<newline>'' @
     token_str @
     py ''\<newline>'' @
     py ''\<newline>'' @
     py ''CONSTRAINTS:\<newline>'' @
     py ''1. Use Tailwind CSS for all layout and custom styling.\<newline>'' @
     py ''2. Use Angular Material components (MatCard, MatButton, MatInput, etc.) where helpful.\<newline>'' @
     py ''3. Use ONLY the hex codes, fonts, and spacing from the Design System above.\<newline>'' @
     py ''4. Output MUST be a valid JSON object with exactly these keys:\<newline>'' @
     py ''   - "html": The Angular HTML template string. IMPORTANT: Ensure the template uses static placeholder text (e.g., "12:00 PM") instead of empty Angular interpolation (e.g., "{ currentTime }") so it looks good in a static preview.\<newline>'' @
     py ''   - "css": Any extra custom CSS string (can be empty string "").\<newline>'' @
     py ''   - "typescript": The Angular TypeScript component class string.\<newline>'' @
     py ''5. Do NOT output any markdown, code fences, or explanation. Raw JSON ONLY.\<newline>'' @
     py ''\<newline>'' @
     py ''USER REQUEST: '' @
     user_prompt)\<close>

subsection \<open>The offline generator\<close>

text \<open>\<open>s.replace(old, new)\<close> for a non-empty \<open>old\<close>.\<close>

fun py_replace :: "pystr \<Rightarrow> pystr \<Rightarrow> pystr \<Rightarrow> pystr" where
  "py_replace old new [] = []"
| "py_replace old new (c # cs) =
     (if old \<noteq> [] \<and> starts_with old (c # cs)
      then new @ py_replace old new (drop (length old - 1) cs)
      else c # py_replace old new cs)"

text \<open>\<open>any(k in p for k in keywords)\<close>.\<close>

definition any_in :: "pystr list \<Rightarrow> pystr \<Rightarrow> bool" where
  "any_in keywords p = list_ex (\<lambda>k. str_in k p) keywords"

definition html_register :: "pystr \<Rightarrow> pystr \<Rightarrow> pystr \<Rightarrow> pystr" where
  \<open>html_register bg radius primary =
     py ''<div class="flex items-center justify-center min-h-screen">\<newline>'' @
     py ''  <div class="p-8 w-96" style="background:'' @ bg @ py '';backdrop-filter:blur(12px);border-radius:'' @ radius @ py '';border:1px solid rgba(255,255,255,0.25);">\<newline>'' @
     py ''    <h2 class="text-2xl font-bold mb-1 text-center" style="color:'' @ primary @ py ''">Create Account</h2>\<newline>'' @
     py ''    <p class="text-center text-sm text-gray-400 mb-6">Join us today '' @ [8212] @ py '' it's free</p>\<newline>'' @
     py ''    <div class="mb-3"><input type="text" placeholder="Full Name" class="w-full px-4 py-2 rounded-lg border text-sm" style="border-color:'' @ primary @ py '';border-radius:'' @ radius @ py '';"></div>\<newline>'' @
     py ''    <div class="mb-3"><input type="email" placeholder="Email address" class="w-full px-4 py-2 rounded-lg border text-sm" style="border-color:'' @ primary @ py '';border-radius:'' @ radius @ py '';"></div>\<newline>'' @
     py ''    <div class="mb-3"><input type="password" placeholder="Password" class="w-full px-4 py-2 rounded-lg border text-sm" style="border-color:'' @ primary @ py '';border-radius:'' @ radius @ py '';"></div>\<newline>'' @
     py ''    <div class="mb-5"><input type="password" placeholder="Confirm password" class="w-full px-4 py-2 rounded-lg border text-sm" style="border-color:'' @ primary @ py '';border-radius:'' @ radius @ py '';"></div>\<newline>'' @
     py ''    <button class="w-full py-2.5 font-semibold text-white text-sm rounded-lg" style="background:'' @ primary @ py '';border-radius:'' @ radius @ py '';">Register</button>\<newline>'' @
     py ''    <p class="text-center text-xs mt-4 text-gray-400">Already have an account? <span style="color:'' @ primary @ py '';cursor:pointer;">Sign in</span></p>\<newline>'' @
     py ''  </div>\<newline>'' @
     py ''</div>''\<close>

definition html_navbar :: "pystr \<Rightarrow> pystr \<Rightarrow> pystr" where
  \<open>html_navbar primary radius =
     py ''<nav class="flex items-center justify-between px-8 py-4 shadow-md" style="background:'' @ primary @ py '';border-radius:'' @ radius @ py '';">\<newline>'' @
     py ''  <div class="flex items-center gap-3">\<newline>'' @
     py ''    <div class="w-8 h-8 bg-white rounded-lg flex items-center justify-center font-bold text-sm" style="color:'' @ primary @ py ''">A</div>\<newline>'' @
     py ''    <span class="font-bold text-white text-lg">AppName</span>\<newline>'' @
     py ''  </div>\<newline>'' @
     py ''  <div class="flex items-center gap-6">\<newline>'' @
     py ''    <a href="#" class="text-white text-sm opacity-80 hover:opacity-100">Home</a>\<newline>'' @
     py ''    <a href="#" class="text-white text-sm opacity-80 hover:opacity-100">About</a>\<newline>'' @
     py ''    <a href="#" class="text-white text-sm opacity-80 hover:opacity-100">Features</a>\<newline>'' @
     py ''    <a href="#" class="text-white text-sm opacity-80 hover:opacity-100">Pricing</a>\<newline>'' @
     py ''    <button class="px-4 py-1.5 bg-white text-sm font-semibold rounded-full" style="color:'' @ primary @ py '';">Get Started</button>\<newline>'' @
     py ''  </div>\<newline>'' @
     py ''</nav>''\<close>

definition html_dashboard :: "pystr \<Rightarrow> pystr \<Rightarrow> pystr" where
  \<open>html_dashboard primary radius =
     py ''<div class="p-6 w-full max-w-3xl">\<newline>'' @
     py ''  <h1 class="text-2xl font-bold mb-6" style="color:'' @ primary @ py ''">Dashboard Overview</h1>\<newline>'' @
     py ''  <div class="grid grid-cols-3 gap-4 mb-6">\<newline>'' @
     py ''    <div class="p-5 rounded-xl border text-center" style="border-color:'' @ primary @ py '';border-radius:'' @ radius @ py '';">\<newline>'' @
     py ''      <div class="text-3xl font-bold" style="color:'' @ primary @ py ''">1,284</div>\<newline>'' @
     py ''      <div class="text-sm text-gray-500 mt-1">Total Users</div>\<newline>'' @
     py ''    </div>\<newline>'' @
     py ''    <div class="p-5 rounded-xl border text-center" style="border-color:'' @ primary @ py '';border-radius:'' @ radius @ py '';">\<newline>'' @
     py ''      <div class="text-3xl font-bold" style="color:'' @ primary @ py ''">$9,420</div>\<newline>'' @
     py ''      <div class="text-sm text-gray-500 mt-1">Revenue</div>\<newline>'' @
     py ''    </div>\<newline>'' @
     py ''    <div class="p-5 rounded-xl border text-center" style="border-color:'' @ primary @ py '';border-radius:'' @ radius @ py '';">\<newline>'' @
     py ''      <div class="text-3xl font-bold" style="color:'' @ primary @ py ''">98.2%</div>\<newline>'' @
     py ''      <div class="text-sm text-gray-500 mt-1">Uptime</div>\<newline>'' @
     py ''    </div>\<newline>'' @
     py ''  </div>\<newline>'' @
     py ''  <div class="p-5 rounded-xl border" style="border-radius:'' @ radius @ py '';border-color:#e5e7eb;">\<newline>'' @
     py ''    <div class="text-sm font-semibold mb-3 text-gray-600">Recent Activity</div>\<newline>'' @
     py ''    <div class="space-y-2 text-sm text-gray-500">\<newline>'' @
     py ''      <div class="flex justify-between"><span>User John signed up</span><span>2m ago</span></div>\<newline>'' @
     py ''      <div class="flex justify-between"><span>Order #1042 placed</span><span>15m ago</span></div>\<newline>'' @
     py ''      <div class="flex justify-between"><span>Server restarted</span><span>1h ago</span></div>\<newline>'' @
     py ''    </div>\<newline>'' @
     py ''  </div>\<newline>'' @
     py ''</div>''\<close>

definition html_profile :: "pystr \<Rightarrow> pystr \<Rightarrow> pystr \<Rightarrow> pystr" where
  \<open>html_profile bg radius primary =
     py ''<div class="flex items-center justify-center min-h-screen">\<newline>'' @
     py ''  <div class="p-8 w-80 text-center" style="background:'' @ bg @ py '';backdrop-filter:blur(12px);border-radius:'' @ radius @ py '';border:1px solid rgba(255,255,255,0.2);">\<newline>'' @
     py ''    <div class="w-20 h-20 rounded-full mx-auto mb-4 flex items-center justify-center text-white text-2xl font-bold" style="background:'' @ primary @ py ''">JD</div>\<newline>'' @
     py ''    <h2 class="text-xl font-bold text-white mb-1">John Doe</h2>\<newline>'' @
     py ''    <p class="text-sm text-gray-400 mb-4">john@example.com</p>\<newline>'' @
     py ''    <div class="flex justify-center gap-4 mb-5 text-center text-sm text-gray-300">\<newline>'' @
     py ''      <div><div class="font-bold text-white">128</div><div>Posts</div></div>\<newline>'' @
     py ''      <div><div class="font-bold text-white">4.2k</div><div>Followers</div></div>\<newline>'' @
     py ''      <div><div class="font-bold text-white">310</div><div>Following</div></div>\<newline>'' @
     py ''    </div>\<newline>'' @
     py ''    <button class="w-full py-2 text-white font-semibold text-sm rounded-lg" style="background:'' @ primary @ py '';border-radius:'' @ radius @ py '';">Edit Profile</button>\<newline>'' @
     py ''  </div>\<newline>'' @
     py ''</div>''\<close>

definition html_button :: "pystr \<Rightarrow> pystr \<Rightarrow> pystr" where
  \<open>html_button primary radius =
     py ''<div class="flex flex-wrap gap-4 items-center justify-center p-8">\<newline>'' @
     py ''  <button class="px-6 py-2.5 font-semibold text-white rounded-lg" style="background:'' @ primary @ py '';border-radius:'' @ radius @ py '';">Primary</button>\<newline>'' @
     py ''  <button class="px-6 py-2.5 font-semibold rounded-lg border-2" style="border-color:'' @ primary @ py '';color:'' @ primary @ py '';border-radius:'' @ radius @ py '';">Outline</button>\<newline>'' @
     py ''  <button class="px-6 py-2.5 font-semibold text-white rounded-lg opacity-50 cursor-not-allowed" style="background:'' @ primary @ py '';border-radius:'' @ radius @ py '';" disabled>Disabled</button>\<newline>'' @
     py ''  <button class="px-6 py-2.5 font-semibold text-white rounded-full" style="background:'' @ primary @ py '';">Rounded</button>\<newline>'' @
     py ''  <button class="px-4 py-2 text-sm font-medium text-white rounded-lg flex items-center gap-2" style="background:'' @ primary @ py '';border-radius:'' @ radius @ py '';">\<newline>'' @
     py ''    <svg class="w-4 h-4" fill="none" stroke="currentColor" viewBox="0 0 24 24"><path stroke-linecap="round" stroke-linejoin="round" stroke-width="2" d="M12 4v16m8-8H4"/></svg>\<newline>'' @
     py ''    Add Item\<newline>'' @
     py ''  </button>\<newline>'' @
     py ''</div>''\<close>

definition html_login :: "pystr \<Rightarrow> pystr \<Rightarrow> pystr \<Rightarrow> pystr \<Rightarrow> pystr" where
  \<open>html_login bg radius primary title =
     py ''<div class="flex items-center justify-center min-h-screen">\<newline>'' @
     py ''  <div class="p-8 w-96" style="background:'' @ bg @ py '';backdrop-filter:blur(12px);border-radius:'' @ radius @ py '';border:1px solid rgba(255,255,255,0.2);">\<newline>'' @
     py ''    <h2 class="text-2xl font-bold mb-6 text-center" style="color:'' @ primary @ py ''">'' @ title @ py ''</h2>\<newline>'' @
     py ''    <div class="mb-4"><label class="block text-sm font-medium mb-1">Email</label>\<newline>'' @
     py ''      <input type="email" placeholder="you@example.com" class="w-full px-4 py-2 rounded-lg border text-sm" style="border-color:'' @ primary @ py '';border-radius:'' @ radius @ py '';"></div>\<newline>'' @
     py ''    <div class="mb-6"><label class="block text-sm font-medium mb-1">Password</label>\<newline>'' @
     py ''      <input type="password" placeholder="'' @ [8226, 8226, 8226, 8226, 8226, 8226, 8226, 8226] @ py ''" class="w-full px-4 py-2 rounded-lg border text-sm" style="border-color:'' @ primary @ py '';border-radius:'' @ radius @ py '';"></div>\<newline>'' @
     py ''    <button class="w-full py-2.5 font-semibold text-white text-sm rounded-lg" style="background:'' @ primary @ py '';border-radius:'' @ radius @ py '';">'' @ title @ py ''</button>\<newline>'' @
     py ''    <p class="text-center text-xs mt-4" style="color:'' @ primary @ py '';cursor:pointer;">Forgot password?</p>\<newline>'' @
     py ''  </div>\<newline>'' @
     py ''</div>''\<close>

definition mock_css :: "pystr \<Rightarrow> pystr \<Rightarrow> pystr \<Rightarrow> pystr" where
  \<open>mock_css ts_class primary font =
     py ''/* '' @ ts_class @ py '' styles '' @ [8212] @ py '' using '' @ primary @
     py '' primary token */ * { font-family: '' @ font @ py ''; }''\<close>

definition mock_typescript :: "pystr \<Rightarrow> pystr \<Rightarrow> pystr" where
  \<open>mock_typescript ts_class ts_selector =
     py ''import { Component } from '' @ [39] @ py ''@angular/core'' @ [39] @ py '';\<newline>'' @
     py ''\<newline>'' @
     py ''@Component({\<newline>'' @
     py ''  selector: '' @ [39] @ ts_selector @ [39] @ py '',\<newline>'' @
     py ''  standalone: true,\<newline>'' @
     py ''  templateUrl: '' @ [39] @ py ''./'' @ py_replace (py ''app-'') [] ts_selector @ py ''.component.html'' @ [39] @ py '',\<newline>'' @
     py ''  styleUrls: ['' @ [39] @ py ''./'' @ py_replace (py ''app-'') [] ts_selector @ py ''.component.css'' @ [39] @ py '']\<newline>'' @
     py ''})\<newline>'' @
     py ''export class '' @ ts_class @ py '' {}''\<close>

text \<open>
  The cascade of keyword tests of \<open>_mock_for_prompt\<close>: the markup, the class name and the
  selector of the first category one of whose keywords occurs in the lower-cased prompt.
\<close>

definition mock_choice :: "pystr \<Rightarrow> pystr \<Rightarrow> pystr \<Rightarrow> pystr \<Rightarrow> pystr \<times> pystr \<times> pystr" where
  "mock_choice p primary bg radius =
     (if any_in [py ''register'', py ''signup'', py ''sign up'', py ''create account''] p then
        (html_register bg radius primary, py ''RegisterComponent'', py ''app-register'')
      else if any_in [py ''navbar'', py ''navigation'', py ''nav bar'', py ''header'', py ''topbar''] p then
        (html_navbar primary radius, py ''NavbarComponent'', py ''app-navbar'')
      else if any_in [py ''dashboard'', py ''stats'', py ''analytics'', py ''overview'', py ''metric''] p then
        (html_dashboard primary radius, py ''DashboardComponent'', py ''app-dashboard'')
      else if any_in [py ''profile'', py ''user card'', py ''avatar'', py ''account''] p then
        (html_profile bg radius primary, py ''ProfileComponent'', py ''app-profile'')
      else if any_in [py ''button'', py ''btn'', py ''cta''] p then
        (html_button primary radius, py ''ButtonShowcaseComponent'', py ''app-buttons'')
      else
        (let title = (if str_in (py ''login'') p then py ''Login'' else py ''Sign In'')
         in (html_login bg radius primary title, py ''LoginComponent'', py ''app-login'')))"

text \<open>The dict \<open>mock\<close> of \<open>_mock_for_prompt\<close>, and the function itself.\<close>

definition mock_dict :: "design_system \<Rightarrow> pystr \<Rightarrow> (pystr \<times> pystr) list" where
  "mock_dict ds prompt =
     (let p = py_lower prompt;
          primary = token_get ds (py ''primary-color'') (py ''#6366f1'');
          bg = token_get ds (py ''glass-background'') (py ''rgba(255,255,255,0.1)'');
          radius = token_get ds (py ''border-radius'') (py ''8px'');
          font = token_get ds (py ''font-family'') (py ''Inter, sans-serif'')
      in case mock_choice p primary bg radius of
           (html, ts_class, ts_selector) \<Rightarrow>
             [(py ''html'', html),
              (py ''css'', mock_css ts_class primary font),
              (py ''typescript'', mock_typescript ts_class ts_selector)])"

definition mock_for_prompt :: "design_system \<Rightarrow> pystr \<Rightarrow> pystr" where
  "mock_for_prompt ds prompt = dumps (mock_dict ds prompt)"

subsection \<open>call_llm\<close>

text \<open>
  A provider is outside the program: given the number of the attempt and the prompt it
  returns a text, or fails (\<open>None\<close>: any exception of the call). The generator object
  holds the design system, the preferred provider and the clients that could be set up.
\<close>

type_synonym provider = "int \<Rightarrow> pystr \<Rightarrow> pystr option"

record generator =
  design :: design_system
  model_preference :: pystr
  clients :: "(pystr \<times> provider) list"

definition all_providers :: "pystr list" where
  "all_providers = [py ''groq'', py ''openai'', py ''claude'', py ''gemini'']"

text \<open>
  The loop over the ordered providers: one without a client is skipped, a call is made
  only for one of the four known providers (the lookup of any other name fails like a call
  does), and the first text returned ends the loop.
\<close>

fun try_providers :: "(pystr \<times> provider) list \<Rightarrow> pystr list \<Rightarrow> int \<Rightarrow> pystr \<Rightarrow> pystr option" where
  "try_providers cl [] n prompt = None"
| "try_providers cl (p # ps) n prompt =
     (case map_of cl p of
        None \<Rightarrow> try_providers cl ps n prompt
      | Some call \<Rightarrow>
          (case (if p \<in> set all_providers then call n prompt else None) of
             Some result \<Rightarrow> Some result
           | None \<Rightarrow> try_providers cl ps n prompt))"

definition call_llm :: "generator \<Rightarrow> int \<Rightarrow> pystr \<Rightarrow> pystr" where
  "call_llm g n prompt =
     (let ordered = model_preference g # filter (\<lambda>p. p \<noteq> model_preference g) all_providers
      in case try_providers (clients g) ordered n prompt of
           Some result \<Rightarrow> result
         | None \<Rightarrow> mock_for_prompt (design g) prompt)"

section \<open>The orchestrator (main.py)\<close>

datatype event =
    Attempt int
  | Generating pystr
  | Validating pystr
  | Success pystr "json option"
  | Failed pystr "pystr list"
  | Correcting pystr
  | MaxRetries pystr "json option"

text \<open>The prompt with the conversation context (the last three earlier requests).\<close>

definition full_prompt :: "pystr \<Rightarrow> pystr list \<Rightarrow> pystr" where
  "full_prompt user_prompt conversation_history =
     (if conversation_history \<noteq> [] then
        py ''Context from previous turns:\<newline>''
        @ py_join [10] (map (\<lambda>h. py ''Previous: '' @ h)
                          (drop (length conversation_history - 3) conversation_history))
        @ py ''\<newline>\<newline>New request: '' @ user_prompt
      else user_prompt)"

text \<open>The prompt of the next attempt after a failed validation.\<close>

definition corrective_prompt :: "design_system \<Rightarrow> pystr list \<Rightarrow> pystr" where
  \<open>corrective_prompt ds errors =
     py ''The previous Angular component had errors. Fix them.\<newline>'' @
     py ''\<newline>'' @
     py ''ERRORS:\<newline>'' @
     py_join [10] (map (\<lambda>e. py ''- '' @ e) errors) @ py ''\<newline>'' @
     py ''\<newline>'' @
     py ''You MUST use the primary color '' @ token_get ds (py ''primary-color'') (py ''#6366f1'') @ py '' and follow the design system.\<newline>'' @
     py ''Output ONLY valid JSON with keys: "html", "css", "typescript". No markdown.\<newline>''\<close>

text \<open>The event after a failed validation.\<close>

definition failed_event :: "pystr list \<Rightarrow> event" where
  "failed_event errors = Failed (py ''Found '' @ str_nat (length errors) @ py '' issue(s)'') errors"

text \<open>The events every attempt starts with.\<close>

definition attempt_head :: "int \<Rightarrow> int \<Rightarrow> event list" where
  "attempt_head attempt max_retries =
     [Attempt attempt,
      Generating (py ''Generating code (Attempt '' @ str_int attempt @ py ''/'' @ str_int max_retries @ py '')...''),
      Validating (py ''Validating design compliance & syntax...'')]"

text \<open>
  The loop \<open>for attempt in range(1, max_retries + 1)\<close> from the attempt \<open>attempt\<close> on:
  the events it yields, and how the generator ends, with the value it returns or with the
  exception that leaves it.
\<close>

function attempt_loop :: "generator \<Rightarrow> int \<Rightarrow> int \<Rightarrow> pystr \<Rightarrow> event list \<times> (py_error + json option)" where
  "attempt_loop g max_retries attempt current_prompt =
     (if max_retries < attempt then ([], Inr None)
      else
        (case validate (design g) (call_llm g attempt current_prompt) of
           Inl e \<Rightarrow> (attempt_head attempt max_retries, Inl e)
         | Inr (errors, code_dict) \<Rightarrow>
             if errors = [] then
               (attempt_head attempt max_retries @ [Success (py ''Validation passed!'') code_dict],
                Inr code_dict)
             else if attempt < max_retries then
               (case attempt_loop g max_retries (attempt + 1) (corrective_prompt (design g) errors) of
                  (evs, res) \<Rightarrow>
                    (attempt_head attempt max_retries
                     @ [failed_event errors,
                        Correcting (py ''Re-prompting LLM with error feedback...'')]
                     @ evs, res))
             else
               (attempt_head attempt max_retries
                @ [failed_event errors, MaxRetries (py ''Max retries reached.'') code_dict],
                Inr code_dict)))"
  by pat_completeness auto
termination
  by (relation "measure (\<lambda>(g, max_retries, attempt, current_prompt). nat (max_retries + 1 - attempt))") auto

declare attempt_loop.simps [simp del]

definition orchestrate_agentic_loop ::
    "generator \<Rightarrow> pystr \<Rightarrow> int \<Rightarrow> pystr list \<Rightarrow> event list \<times> (py_error + json option)" where
  "orchestrate_agentic_loop g user_prompt max_retries conversation_history =
     attempt_loop g max_retries 1
       (build_prompt (design g) (full_prompt user_prompt conversation_history))"

section \<open>Statements of the specification\<close>

text \<open>A required part is missing or empty: the key is absent, or its value is falsy.\<close>

definition missing_or_empty :: "(pystr \<times> json) list \<Rightarrow> pystr \<Rightarrow> bool" where
  "missing_or_empty kvs k = (case map_of kvs k of None \<Rightarrow> True | Some v \<Rightarrow> \<not> truthy v)"

text \<open>The errors of the required-field check, as the specification lists them.\<close>

definition spec_required_errors :: "(pystr \<times> json) list \<Rightarrow> pystr list" where
  "spec_required_errors kvs =
     (if missing_or_empty kvs (py ''html'')
      then [py ''Missing or empty component part: html''] else [])
     @ (if missing_or_empty kvs (py ''typescript'')
        then [py ''Missing or empty component part: typescript''] else [])
     @ (if map_of kvs (py ''css'') = None then [py ''Missing component part: css''] else [])"

text \<open>The errors of the balance check for the field \<open>key\<close> with the text \<open>content\<close>.\<close>

definition balance_errors :: "pystr \<Rightarrow> pystr \<Rightarrow> pystr list" where
  "balance_errors key content =
     (if count_list content 123 \<noteq> count_list content 125
      then [py ''Unbalanced curly braces in '' @ key] else [])
     @ (if count_list content 40 \<noteq> count_list content 41
        then [py ''Unbalanced parentheses in '' @ key] else [])"

text \<open>\<open>p\<close> occurs in \<open>s\<close> as a literal substring.\<close>

definition is_substring :: "'a list \<Rightarrow> 'a list \<Rightarrow> bool" where
  "is_substring p s = (\<exists>a b. s = a @ p @ b)"

text \<open>The errors of the design compliance check for the markup \<open>html\<close> and the styles \<open>css\<close>.\<close>

definition design_errors :: "design_system \<Rightarrow> pystr \<Rightarrow> pystr \<Rightarrow> pystr list" where
  "design_errors ds html css =
     (case map_of (tokens ds) (py ''primary-color'') of
        None \<Rightarrow> []
      | Some color \<Rightarrow>
          if is_substring (py_lower color) (py_lower (html @ css)) then []
          else [py ''Design Token Violation: Primary color '' @ [39] @ py_lower color @ [39]
                  @ py '' was not used.''])"

text \<open>The error list of the parse failure.\<close>

definition parse_failure :: "py_error + (pystr list \<times> json option)" where
  "parse_failure = Inr ([py ''Invalid JSON format or non-JSON output generated.''], None)"

text \<open>Sample inputs: the scenarios of the specification and inputs a provider can return.\<close>

definition no_tokens :: design_system where
  "no_tokens = \<lparr>tokens = []\<rparr>"

definition tokens_111 :: design_system where
  "tokens_111 = \<lparr>tokens = [(py ''primary-color'', py ''#111'')]\<rparr>"

definition scenario_B_doc :: "(pystr \<times> json) list" where
  "scenario_B_doc =
     [(py ''html'', JStr (py ''<div>x</div>'')), (py ''typescript'', JStr (py ''class C {}'')),
      (py ''css'', JStr [])]"

definition scenario_E_doc :: "(pystr \<times> json) list" where
  "scenario_E_doc =
     [(py ''html'', JStr (py ''<div>x</div>'')), (py ''typescript'', JStr (py ''class C { '')),
      (py ''css'', JStr [])]"

definition raw_null_css :: pystr where
  \<open>raw_null_css = py ''{"html":"<p>x</p>","typescript":"class C {}","css":null}''\<close>

definition req_main :: pystr where
  "req_main = py ''A modern login card with a glassmorphism effect, email and password fields.''"

definition offline_111 :: generator where
  "offline_111 = \<lparr>design = tokens_111, model_preference = py ''groq'', clients = []\<rparr>"




definition tokens_fence :: design_system where
  "tokens_fence = \<lparr>tokens = [(py ''primary-color'', [96, 96, 96])]\<rparr>"

subsection \<open>The attempt loop\<close>


fun is_attempt :: "event \<Rightarrow> bool" where
  "is_attempt (Attempt n) = True"
| "is_attempt _ = False"






subsection \<open>Texts and tokens\<close>

text \<open>A Unicode scalar value: a code point that is not a surrogate.\<close>

definition scalar :: "nat \<Rightarrow> bool" where
  "scalar c = (c < 55296 \<or> (57344 \<le> c \<and> c < 1114112))"

text \<open>A scalar value other than the backtick.\<close>

definition plain :: "nat \<Rightarrow> bool" where
  "plain c = (scalar c \<and> c \<noteq> 96)"

definition no_brackets :: "pystr \<Rightarrow> bool" where
  "no_brackets v = (123 \<notin> set v \<and> 125 \<notin> set v \<and> 40 \<notin> set v \<and> 41 \<notin> set v)"

definition token_text :: "pystr \<Rightarrow> bool" where
  "token_text v = list_all plain v"

definition recognized_tokens :: "pystr list" where
  "recognized_tokens =
     [py ''primary-color'', py ''glass-background'', py ''border-radius'', py ''font-family'']"

text \<open>
  Every recognized token that the design system holds is a text of scalar values with no
  curly brace, no parenthesis and no backtick.
\<close>

definition tokens_admissible :: "design_system \<Rightarrow> bool" where
  "tokens_admissible ds =
     list_all (\<lambda>name. case map_of (tokens ds) name of
                        None \<Rightarrow> True
                      | Some v \<Rightarrow> no_brackets v \<and> token_text v) recognized_tokens"

text \<open>The artifact a dict of strings is read back as.\<close>

definition artifact_of :: "(pystr \<times> pystr) list \<Rightarrow> json" where
  "artifact_of kvs = JDict (map (\<lambda>kv. (fst kv, JStr (snd kv))) kvs)"

text \<open>The four hexadecimal digits of a \<open>\u\<close> escape.\<close>

definition hexs :: "nat \<Rightarrow> pystr" where
  "hexs n = [hex_digit (n div 4096 mod 16), hex_digit (n div 256 mod 16),
             hex_digit (n div 16 mod 16), hex_digit (n mod 16)]"

text \<open>What the proofs need of a choice of the offline generator.\<close>

fun good_choice :: "pystr \<times> pystr \<times> pystr \<Rightarrow> bool" where
  "good_choice (html, ts_class, ts_selector) =
     (html \<noteq> [] \<and> list_all plain html
      \<and> list_all plain ts_class \<and> no_brackets ts_class
      \<and> list_all plain ts_selector \<and> no_brackets ts_selector)"

section \<open>Basic facts\<close>

lemma py_Nil [simp]: "py [] = []"
  by (simp add: py_def)

lemma py_Cons: "py (c # s) = of_char c # py s"
  by (simp add: py_def)

lemma py_append: "py a @ py b = py (a @ b)"
  by (simp add: py_def)

lemma py_inj [simp]: "py a = py b \<longleftrightarrow> a = b"
proof -
  have "inj (of_char :: char \<Rightarrow> nat)" by (rule injI) simp
  then show ?thesis by (simp add: py_def inj_map_eq_map)
qed

lemma py_eq_Nil [simp]: "py a = [] \<longleftrightarrow> a = []"
  by (simp add: py_def)

lemma py_bind_Inr [simp]: "py_bind (Inr x) f = f x"
  by (simp add: py_bind_def)

lemma py_bind_Inl [simp]: "py_bind (Inl e) f = Inl e"
  by (simp add: py_bind_def)

lemma starts_with_append: "starts_with p (p @ s)"
  by (induction p) simp_all

lemma starts_with_iff: "starts_with p s \<longleftrightarrow> (\<exists>r. s = p @ r)"
proof (induction p s rule: starts_with.induct)
  case (3 p ps c cs)
  then show ?case by auto
qed simp_all

lemma str_in_iff: "str_in p s \<longleftrightarrow> is_substring p s"
proof (induction s)
  case Nil
  then show ?case by (simp add: is_substring_def)
next
  case (Cons c cs)
  show ?case
  proof
    assume "str_in p (c # cs)"
    then consider "starts_with p (c # cs)" | "str_in p cs" by auto
    then show "is_substring p (c # cs)"
    proof cases
      case 1
      then obtain r where "c # cs = p @ r" by (auto simp: starts_with_iff)
      then have "c # cs = [] @ p @ r" by simp
      then show ?thesis unfolding is_substring_def by blast
    next
      case 2
      with Cons obtain a b where "cs = a @ p @ b" by (auto simp: is_substring_def)
      then have "c # cs = (c # a) @ p @ b" by simp
      then show ?thesis unfolding is_substring_def by blast
    qed
  next
    assume "is_substring p (c # cs)"
    then obtain a b where ab: "c # cs = a @ p @ b" by (auto simp: is_substring_def)
    show "str_in p (c # cs)"
    proof (cases a)
      case Nil
      with ab have "starts_with p (c # cs)" by (simp add: starts_with_append)
      then show ?thesis by simp
    next
      case (Cons x xs)
      with ab have "cs = xs @ p @ b" by simp
      then have "is_substring p cs" unfolding is_substring_def by blast
      with Cons.IH show ?thesis by simp
    qed
  qed
qed

text \<open>The texts are read by rewriting with the defining equations of the scanners.\<close>

lemmas read_simps = py_Cons clean_raw_def json_loads_def py_strip_def is_space_def
  next_token_def is_json_ws_def hex_val_def unescape_def str_cons_def scan_number_def
  is_digit_def digits_val_def Let_def

section \<open>The checks on a parsed document\<close>

lemma required_part_dict:
  "required_part (JDict kvs) part errors =
     Inr (errors @ (if missing_or_empty kvs part
                    then [py ''Missing or empty component part: '' @ part] else []))"
  by (simp add: required_part_def missing_or_empty_def split: option.splits)

lemma required_fields_dict: "required_fields (JDict kvs) = Inr (spec_required_errors kvs)"
  by (simp add: required_fields_def required_part_dict spec_required_errors_def py_append)

lemma spec_required_errors_distinct: "distinct (spec_required_errors kvs)"
  by (simp add: spec_required_errors_def)

lemma check_syntax_key_str:
  "map_of kvs key = Some (JStr content) \<Longrightarrow>
   check_syntax_key (JDict kvs) key errs = Inr (errs @ balance_errors key content)"
  by (simp add: check_syntax_key_def balance_errors_def Let_def)

lemma check_syntax_strings:
  assumes "map_of kvs (py ''typescript'') = Some (JStr t)"
    and "map_of kvs (py ''css'') = Some (JStr c)"
  shows "check_syntax (JDict kvs) =
           Inr (balance_errors (py ''typescript'') t @ balance_errors (py ''css'') c)"
  using assms by (simp add: check_syntax_def check_syntax_key_str)

lemma check_design_strings:
  assumes "map_of kvs (py ''html'') = Some (JStr h)"
    and "map_of kvs (py ''css'') = Some (JStr c)"
  shows "check_design_compliance ds (JDict kvs) = Inr (design_errors ds h c)"
proof (cases "map_of (tokens ds) (py ''primary-color'')")
  case None
  with assms show ?thesis
    by (simp add: check_design_compliance_def design_errors_def token_get_def py_lower_def)
next
  case (Some color)
  have "is_substring [] s" for s :: pystr
    unfolding is_substring_def by (rule exI [of _ "[]"], rule exI [of _ s]) simp
  with Some assms show ?thesis
    by (auto simp add: check_design_compliance_def design_errors_def token_get_def Let_def
        str_in_iff)
qed

lemma validate_parsed_strings:
  assumes "map_of kvs (py ''html'') = Some (JStr h)" "h \<noteq> []"
    and "map_of kvs (py ''typescript'') = Some (JStr t)" "t \<noteq> []"
    and "map_of kvs (py ''css'') = Some (JStr c)"
  shows "validate_parsed ds (JDict kvs) =
           Inr (balance_errors (py ''typescript'') t @ balance_errors (py ''css'') c
                @ design_errors ds h c, Some (JDict kvs))"
proof -
  have "spec_required_errors kvs = []"
    using assms by (simp add: spec_required_errors_def missing_or_empty_def)
  then show ?thesis
    using assms
    by (simp add: validate_parsed_def required_fields_dict check_syntax_strings
        check_design_strings)
qed

lemma validate_parsed_artifact:
  "validate_parsed ds d = Inr (es, a) \<Longrightarrow> a = Some d"
  by (auto simp: validate_parsed_def py_bind_def split: sum.splits if_splits)

text \<open>
  C4. For a parsed key-value document the required-field check returns exactly these
  errors, accumulated in one list: one citing \<open>html\<close> when it is missing or empty, one citing
  \<open>typescript\<close> when it is missing or empty, one for a missing \<open>css\<close> key (a present \<open>css\<close>,
  even empty, gives none). The errors are pairwise different. When the list is not empty
  it is the result of the validation, with the document; the syntax and design checks run
  only when it is empty.
\<close>

theorem required_fields_accumulate:
  "required_fields (JDict kvs) = Inr (spec_required_errors kvs)
   \<and> distinct (spec_required_errors kvs)
   \<and> validate_parsed ds (JDict kvs) =
       (if spec_required_errors kvs = [] then
          py_bind (check_syntax (JDict kvs)) (\<lambda>syntax_errors.
          py_bind (check_design_compliance ds (JDict kvs)) (\<lambda>design_errors.
            Inr (syntax_errors @ design_errors, Some (JDict kvs))))
        else Inr (spec_required_errors kvs, Some (JDict kvs)))"
  by (simp add: required_fields_dict spec_required_errors_distinct validate_parsed_def)

text \<open>
  C5. For a parsed document that passes the required-field check and whose three fields
  are strings, the syntax check returns the balance errors of \<open>typescript\<close> followed by
  those of \<open>css\<close>: for each field one error naming it when its counts of \<open>{\<close> and \<open>}\<close>
  differ, and one when its counts of \<open>(\<close> and \<open>)\<close> differ. These errors are the first part
  of the validation's error list. With the typescript text \<open>class C { \<close> the error
  "Unbalanced curly braces in typescript" occurs exactly once.
\<close>

theorem syntax_balance_check:
  assumes "map_of kvs (py ''html'') = Some (JStr h)" and "h \<noteq> []"
    and "map_of kvs (py ''typescript'') = Some (JStr t)" and "t \<noteq> []"
    and "map_of kvs (py ''css'') = Some (JStr c)"
  shows "check_syntax (JDict kvs) =
           Inr (balance_errors (py ''typescript'') t @ balance_errors (py ''css'') c)
         \<and> validate_parsed ds (JDict kvs) =
             Inr ((balance_errors (py ''typescript'') t @ balance_errors (py ''css'') c)
                  @ design_errors ds h c, Some (JDict kvs))
         \<and> (t = py ''class C { '' \<longrightarrow>
              count_list
                (balance_errors (py ''typescript'') t @ balance_errors (py ''css'') c
                 @ design_errors ds h c)
                (py ''Unbalanced curly braces in typescript'') = 1)"
proof -
  have "count_list (design_errors ds h c) (py ''Unbalanced curly braces in typescript'') = 0"
    by (simp add: design_errors_def py_Cons split: option.splits)
  moreover have "count_list (balance_errors (py ''css'') c)
                   (py ''Unbalanced curly braces in typescript'') = 0"
    by (simp add: balance_errors_def py_Cons)
  moreover have "count_list (balance_errors (py ''typescript'') (py ''class C { ''))
                   (py ''Unbalanced curly braces in typescript'') = 1"
    by (simp add: balance_errors_def py_Cons)
  ultimately show ?thesis
    using assms by (simp add: check_syntax_strings validate_parsed_strings)
qed

theorem syntax_balance_check_witness:
  "map_of scenario_E_doc (py ''typescript'') = Some (JStr (py ''class C { ''))
   \<and> check_syntax (JDict scenario_E_doc) = Inr [py ''Unbalanced curly braces in typescript'']
   \<and> validate_parsed no_tokens (JDict scenario_E_doc) =
       Inr ([py ''Unbalanced curly braces in typescript''], Some (JDict scenario_E_doc))"
  using syntax_balance_check [of scenario_E_doc "py ''<div>x</div>''" "py ''class C { ''" "[]" no_tokens]
  by (simp add: scenario_E_doc_def balance_errors_def design_errors_def no_tokens_def py_Cons)

text \<open>
  C6. For a parsed document that passes the required-field check and whose three fields
  are strings: when a primary color is configured, the design check returns no error if
  the lower-cased color is a literal substring of the lower-cased concatenation of \<open>html\<close>
  and \<open>css\<close>, and otherwise exactly one error that names the (lower-cased) color; when no
  primary color is configured it returns no error. These errors are the last part of the
  validation's error list.
\<close>

theorem design_compliance_check:
  assumes "map_of kvs (py ''html'') = Some (JStr h)" and "h \<noteq> []"
    and "map_of kvs (py ''typescript'') = Some (JStr t)" and "t \<noteq> []"
    and "map_of kvs (py ''css'') = Some (JStr c)"
  shows "check_design_compliance ds (JDict kvs) = Inr (design_errors ds h c)
         \<and> validate_parsed ds (JDict kvs) =
             Inr ((balance_errors (py ''typescript'') t @ balance_errors (py ''css'') c)
                  @ design_errors ds h c, Some (JDict kvs))
         \<and> (map_of (tokens ds) (py ''primary-color'') = None \<longrightarrow> design_errors ds h c = [])"
  using assms by (simp add: check_design_strings validate_parsed_strings design_errors_def)

theorem design_compliance_check_witness:
  "check_design_compliance tokens_111 (JDict scenario_B_doc) =
     Inr [py ''Design Token Violation: Primary color '' @ [39] @ py ''#111'' @ [39] @ py '' was not used.'']
   \<and> validate_parsed tokens_111 (JDict scenario_B_doc) =
       Inr ([py ''Design Token Violation: Primary color '' @ [39] @ py ''#111'' @ [39] @ py '' was not used.''],
            Some (JDict scenario_B_doc))
   \<and> check_design_compliance no_tokens (JDict scenario_B_doc) = Inr []"
proof -
  have "\<not> str_in (py_lower (py ''#111'')) (py_lower (py ''<div>x</div>'' @ []))"
    by (simp add: py_lower_def lower_cp_def py_Cons)
  then have 1: "design_errors tokens_111 (py ''<div>x</div>'') [] =
      [py ''Design Token Violation: Primary color '' @ [39] @ py ''#111'' @ [39] @ py '' was not used.'']"
    by (simp add: design_errors_def tokens_111_def str_in_iff py_lower_def lower_cp_def py_Cons)
  have 2: "balance_errors (py ''typescript'') (py ''class C {}'') = []"
    "balance_errors (py ''css'') [] = []"
    by (simp_all add: balance_errors_def py_Cons)
  show ?thesis
    using design_compliance_check [of scenario_B_doc "py ''<div>x</div>''" "py ''class C {}''" "[]" tokens_111]
      design_compliance_check [of scenario_B_doc "py ''<div>x</div>''" "py ''class C {}''" "[]" no_tokens]
    by (simp add: scenario_B_doc_def 1 2 no_tokens_def)
qed

section \<open>The validation of a raw text\<close>

lemma loads_null_css:
  "json_loads (clean_raw raw_null_css) =
     Some (JDict [(py ''html'', JStr (py ''<p>x</p>'')),
                  (py ''typescript'', JStr (py ''class C {}'')), (py ''css'', JNull)])"
  by (simp add: raw_null_css_def read_simps)

lemma validate_null_css: "validate ds raw_null_css = Inl AttributeError"
  by (simp add: loads_null_css validate_def validate_parsed_def required_fields_def
      required_part_def check_syntax_def check_syntax_key_def py_Cons)

lemma loads_number: "json_loads (clean_raw (py ''5'')) = Some (JInt 5)"
  by (simp add: read_simps)

lemma validate_number: "validate ds (py ''5'') = Inl TypeError"
  by (simp add: loads_number validate_def validate_parsed_def required_fields_def
      required_part_def)

lemma loads_list: "json_loads (clean_raw (py ''[]'')) = Some (JList [])"
  by (simp add: read_simps)

lemma validate_list:
  "validate ds (py ''[]'') =
     Inr ([py ''Missing or empty component part: html'',
           py ''Missing or empty component part: typescript'',
           py ''Missing component part: css''], Some (JList []))"
  by (simp add: loads_list validate_def validate_parsed_def required_fields_def
      required_part_def py_append)

text \<open>
  C2. The raw text \<open>{"html":"<p>x</p>","typescript":"class C {}","css":null}\<close> is read as a
  dict that passes the required-field check; the syntax check then calls \<open>count\<close> on the
  value \<open>None\<close> of \<open>css\<close>, and the AttributeError leaves \<open>validate\<close>. A raw text that is a
  JSON number leaves it with a TypeError.
\<close>

theorem validate_raises:
  "validate ds raw_null_css = Inl AttributeError \<and> validate ds (py ''5'') = Inl TypeError"
  by (simp add: validate_null_css validate_number)

text \<open>
  What the code does with a text that is not JSON: the decoder fails exactly when the
  result is the single error "Invalid JSON format or non-JSON output generated." with no
  artifact, and the text \<open>not json\<close> is such an input.
\<close>

lemma validate_parse_failure:
  "(json_loads (clean_raw raw) = None \<longrightarrow> validate ds raw = parse_failure)
   \<and> (validate ds raw = parse_failure \<longrightarrow> json_loads (clean_raw raw) = None)
   \<and> validate ds (py ''not json'') = parse_failure"
proof -
  have "json_loads (clean_raw (py ''not json'')) = None"
    by (simp add: read_simps)
  then show ?thesis
    by (auto simp: validate_def parse_failure_def dest: validate_parsed_artifact
        split: option.splits)
qed

text \<open>
  C3. The text \<open>[]\<close> does not parse as a key-value document: it is a JSON list. Only a
  failure of the decoder is caught, so \<open>validate\<close> does not return the parse failure for it:
  it returns three required-field errors, with the list as the artifact where a dict or
  nothing is declared. The text \<open>5\<close>, a JSON number, does not parse as a key-value document
  either, and \<open>validate\<close> returns nothing for it: a TypeError leaves it.
\<close>

theorem validate_non_dict:
  "(\<nexists>kvs. json_loads (clean_raw (py ''[]'')) = Some (JDict kvs))
   \<and> validate ds (py ''[]'') \<noteq> parse_failure
   \<and> validate ds (py ''[]'') =
       Inr ([py ''Missing or empty component part: html'',
             py ''Missing or empty component part: typescript'',
             py ''Missing component part: css''], Some (JList []))
   \<and> (\<nexists>kvs. json_loads (clean_raw (py ''5'')) = Some (JDict kvs))
   \<and> validate ds (py ''5'') = Inl TypeError"
  by (simp add: loads_list loads_number validate_list validate_number parse_failure_def)

section \<open>Reading back what json.dumps wrote\<close>

lemma hex_val_digit: "d < 16 \<Longrightarrow> hex_val (hex_digit d) = Some d"
  by (auto simp: hex_val_def hex_digit_def)

lemma hex4_u_escape:
  assumes "n < 65536"
  shows "hex4 (hex_digit (n div 4096 mod 16) # hex_digit (n div 256 mod 16)
               # hex_digit (n div 16 mod 16) # hex_digit (n mod 16) # rest) = Some n"
proof -
  define q1 where "q1 = n div 16"
  define q2 where "q2 = q1 div 16"
  define q3 where "q3 = q2 div 16"
  have d: "n div 256 = q2" "n div 4096 = q3"
    by (simp_all add: q1_def q2_def q3_def div_mult2_eq [symmetric])
  have "q3 < 16" using assms unfolding d(2) [symmetric] by arith
  then have e3: "q3 mod 16 = q3" by simp
  have e2: "q2 = q3 * 16 + q2 mod 16" unfolding q3_def by simp
  have e1: "q1 = q2 * 16 + q1 mod 16" unfolding q2_def by simp
  have e0: "n = q1 * 16 + n mod 16" unfolding q1_def by simp
  have "((q3 * 16 + q2 mod 16) * 16 + q1 mod 16) * 16 + n mod 16 = n"
    using e0 e1 e2 by simp
  then have sum: "((n div 4096 mod 16 * 16 + n div 256 mod 16) * 16 + n div 16 mod 16) * 16 + n mod 16 = n"
    unfolding d e3 q1_def [symmetric] by simp
  have v: "hex_val (hex_digit (x mod 16)) = Some (x mod 16)" for x
    by (simp add: hex_val_digit)
  show ?thesis by (simp only: hex4.simps v prod.case option.case sum)
qed

lemma scan_string_u:
  assumes "hex4 es = Some u" and "\<not> (55296 \<le> u \<and> u \<le> 56319)"
  shows "scan_string (92 # 117 # es) = str_cons u 6 (scan_string (drop 4 es))"
proof (cases "55296 \<le> u")
  case True
  with assms(2) have "\<not> u \<le> 56319" by simp
  with True assms(1) show ?thesis by simp
next
  case False
  with assms(1) show ?thesis by simp
qed

lemma scan_string_uu:
  assumes "hex4 es = Some u" and "55296 \<le> u" and "u \<le> 56319"
    and "drop 4 es = 92 # 117 # es2"
    and "hex4 es2 = Some u2" and "56320 \<le> u2" and "u2 \<le> 57343"
  shows "scan_string (92 # 117 # es)
         = str_cons (65536 + ((u - 55296) * 1024 + (u2 - 56320))) 12 (scan_string (drop 4 es2))"
proof -
  have "drop 6 es = drop 2 (drop 4 es)" by simp
  then have d6: "drop 6 es = es2" using assms(4) by simp
  have "drop 10 es = drop 6 (drop 4 es)" by simp
  then have d10: "drop 10 es = drop 4 es2" using assms(4) by simp
  show ?thesis using assms by (simp add: d6 d10)
qed

lemma u_escape_hexs: "u_escape n = 92 # 117 # hexs n"
  by (simp add: u_escape_def hexs_def)

lemma hex4_hexs: "n < 65536 \<Longrightarrow> hex4 (hexs n @ rest) = Some n"
  unfolding hexs_def using hex4_u_escape [of n rest] by simp

lemma length_hexs [simp]: "length (hexs n) = 4"
  by (simp add: hexs_def)

lemma scan_string_u_escape:
  assumes "n < 65536" and "\<not> (55296 \<le> n \<and> n \<le> 56319)"
  shows "scan_string (u_escape n @ rest) = str_cons n 6 (scan_string rest)"
  using scan_string_u [OF hex4_hexs [OF assms(1), of rest] assms(2)]
  by (simp add: u_escape_hexs)

lemma scan_string_pair:
  assumes "65536 \<le> c" and "c < 1114112"
  shows "scan_string (u_escape (55296 + (c - 65536) div 1024 mod 1024)
                      @ u_escape (56320 + (c - 65536) mod 1024) @ rest)
         = str_cons c 12 (scan_string rest)"
proof -
  define hi where "hi = 55296 + (c - 65536) div 1024 mod 1024"
  define lo where "lo = 56320 + (c - 65536) mod 1024"
  have hi: "hi < 65536" "55296 \<le> hi" "hi \<le> 56319" by (simp_all add: hi_def)
  have lo: "lo < 65536" "56320 \<le> lo" "lo \<le> 57343" by (simp_all add: lo_def)
  have "(c - 65536) div 1024 < 1024" using assms by arith
  then have "(c - 65536) div 1024 mod 1024 = (c - 65536) div 1024" by simp
  then have join: "65536 + ((hi - 55296) * 1024 + (lo - 56320)) = c"
    using assms by (simp add: hi_def lo_def)
  have "scan_string (92 # 117 # hexs hi @ 92 # 117 # hexs lo @ rest)
        = str_cons (65536 + ((hi - 55296) * 1024 + (lo - 56320))) 12
            (scan_string (drop 4 (hexs lo @ rest)))"
    by (rule scan_string_uu [OF hex4_hexs [OF hi(1)] hi(2) hi(3) _ hex4_hexs [OF lo(1)] lo(2) lo(3)])
       simp
  then show ?thesis
    unfolding hi_def [symmetric] lo_def [symmetric] by (simp add: u_escape_hexs join)
qed

lemma esc_cases:
  "scalar c \<Longrightarrow> scan_string (esc_char c @ rest) = str_cons c (length (esc_char c)) (scan_string rest)"
proof -
  assume sc: "scalar c"
  consider "c = 34 \<or> c = 92 \<or> c = 10 \<or> c = 13 \<or> c = 9 \<or> c = 8 \<or> c = 12"
    | "32 \<le> c" "c \<le> 126" "c \<noteq> 34" "c \<noteq> 92"
    | "c < 32 \<or> 126 < c" "c < 65536" "c \<noteq> 10" "c \<noteq> 13" "c \<noteq> 9" "c \<noteq> 8" "c \<noteq> 12"
    | "65536 \<le> c"
    by linarith
  then show ?thesis
  proof cases
    case 1
    then show ?thesis by (auto simp: esc_char_def unescape_def numeral_2_eq_2)
  next
    case 2
    then show ?thesis by (simp add: esc_char_def)
  next
    case 3
    with sc have "\<not> (55296 \<le> c \<and> c \<le> 56319)" by (auto simp: scalar_def)
    with 3 have "scan_string (u_escape c @ rest) = str_cons c 6 (scan_string rest)"
      by (intro scan_string_u_escape) auto
    moreover have "esc_char c = u_escape c" using 3 by (auto simp: esc_char_def)
    moreover have "length (u_escape c) = 6" by (simp add: u_escape_def)
    ultimately show ?thesis by simp
  next
    case 4
    with sc have lt: "c < 1114112" by (auto simp: scalar_def)
    have e: "esc_char c = u_escape (55296 + (c - 65536) div 1024 mod 1024) @ u_escape (56320 + (c - 65536) mod 1024)"
      using 4 by (simp add: esc_char_def)
    have "length (esc_char c) = 12" unfolding e by (simp add: u_escape_def)
    then show ?thesis
      using scan_string_pair [OF 4 lt, of rest] unfolding e by simp
  qed
qed

lemma scan_string_escape:
  "list_all scalar s \<Longrightarrow> scan_string (escape s @ 34 # rest) = Some (s, Suc (length (escape s)))"
proof (induction s)
  case Nil
  then show ?case by (simp add: escape_def)
next
  case (Cons c s)
  then have "scan_string (esc_char c @ escape s @ 34 # rest)
      = str_cons c (length (esc_char c)) (Some (s, Suc (length (escape s))))"
    by (simp add: esc_cases)
  then show ?case by (simp add: escape_def str_cons_def)
qed


lemma lex_string:
  assumes "list_all scalar s"
  shows "lex (34 # escape s @ 34 # rest)
         = (case lex rest of None \<Rightarrow> None | Some ts \<Rightarrow> Some (TString s # ts))"
  using scan_string_escape [OF assms, of rest]
  by (simp add: next_token_def is_json_ws_def)

lemma lex_punct:
  "lex (123 # r) = (case lex r of None \<Rightarrow> None | Some ts \<Rightarrow> Some (TLBrace # ts))"
  "lex (58 # 32 # r) = (case lex r of None \<Rightarrow> None | Some ts \<Rightarrow> Some (TColon # ts))"
  "lex (44 # 32 # r) = (case lex r of None \<Rightarrow> None | Some ts \<Rightarrow> Some (TComma # ts))"
  "lex [125] = Some [TRBrace]"
  by (simp_all add: next_token_def is_json_ws_def)

lemma dumps3:
  "dumps [(k1, v1), (k2, v2), (k3, v3)] =
     123 # 34 # escape k1 @ 34 # 58 # 32 # 34 # escape v1 @ 34 # 44 # 32 #
     34 # escape k2 @ 34 # 58 # 32 # 34 # escape v2 @ 34 # 44 # 32 #
     34 # escape k3 @ 34 # 58 # 32 # 34 # escape v3 @ 34 # [125]"
  by (simp add: dumps_def dumps_item_def dumps_str_def py_Cons)

lemma lex_dumps3:
  assumes "list_all scalar k1" "list_all scalar v1" "list_all scalar k2" "list_all scalar v2"
    "list_all scalar k3" "list_all scalar v3"
  shows "lex (dumps [(k1, v1), (k2, v2), (k3, v3)]) =
     Some [TLBrace, TString k1, TColon, TString v1, TComma, TString k2, TColon, TString v2,
           TComma, TString k3, TColon, TString v3, TRBrace]"
  unfolding dumps3 using assms by (simp only: lex_punct lex_string option.case)

lemma loads_dumps3:
  assumes "list_all scalar k1" "list_all scalar v1" "list_all scalar k2" "list_all scalar v2"
    "list_all scalar k3" "list_all scalar v3"
    and "k1 \<noteq> k2" "k1 \<noteq> k3" "k2 \<noteq> k3"
  shows "json_loads (dumps [(k1, v1), (k2, v2), (k3, v3)]) =
     Some (JDict [(k1, JStr v1), (k2, JStr v2), (k3, JStr v3)])"
  using assms(7-9) by (simp add: json_loads_def lex_dumps3 [OF assms(1-6)])

lemma fence_sub_id: "96 \<notin> set s \<Longrightarrow> fence_sub s = s"
proof (induction s)
  case Nil
  show ?case by simp
next
  case (Cons c cs)
  then have "c \<noteq> 96" "96 \<notin> set cs" by auto
  moreover have "\<not> starts_with (py ''```'') cs"
    using \<open>96 \<notin> set cs\<close> by (cases cs) (auto simp: py_Cons)
  ultimately show ?case
    using Cons.IH by (simp add: py_Cons)
qed

lemma py_strip_id:
  assumes "s \<noteq> []" and "\<not> is_space (hd s)" and "\<not> is_space (last s)"
  shows "py_strip s = s"
proof -
  from assms(1,2) have 1: "dropWhile is_space s = s" by (cases s) simp_all
  from assms(1,3) have 2: "dropWhile is_space (rev s) = rev s"
    by (cases s rule: rev_cases) simp_all
  show ?thesis by (simp add: py_strip_def 1 2)
qed

lemma hex_digit_not_backtick: "hex_digit d \<noteq> 96"
  by (simp add: hex_digit_def)

lemma esc_char_no_backtick: "c \<noteq> 96 \<Longrightarrow> 96 \<notin> set (esc_char c)"
  by (simp add: esc_char_def u_escape_def hex_digit_not_backtick)

lemma escape_no_backtick: "96 \<notin> set s \<Longrightarrow> 96 \<notin> set (escape s)"
  by (induction s) (auto simp: escape_def esc_char_no_backtick)

lemma clean_raw_dumps3:
  assumes "96 \<notin> set k1" "96 \<notin> set v1" "96 \<notin> set k2" "96 \<notin> set v2" "96 \<notin> set k3" "96 \<notin> set v3"
  shows "clean_raw (dumps [(k1, v1), (k2, v2), (k3, v3)]) = dumps [(k1, v1), (k2, v2), (k3, v3)]"
proof -
  have "96 \<notin> set (dumps [(k1, v1), (k2, v2), (k3, v3)])"
    unfolding dumps3 using assms by (simp add: escape_no_backtick)
  then have "fence_sub (dumps [(k1, v1), (k2, v2), (k3, v3)]) = dumps [(k1, v1), (k2, v2), (k3, v3)]"
    by (rule fence_sub_id)
  moreover have "py_strip (dumps [(k1, v1), (k2, v2), (k3, v3)]) = dumps [(k1, v1), (k2, v2), (k3, v3)]"
    unfolding dumps3 by (rule py_strip_id) (simp_all add: is_space_def)
  ultimately show ?thesis by (simp add: clean_raw_def)
qed


section \<open>The output of the offline generator\<close>

lemma plain_of_char: "plain (of_char c) \<longleftrightarrow> c \<noteq> CHR 0x60"
proof -
  have "(of_char (CHR 0x60) :: nat) = 96" by simp
  then have "(of_char c :: nat) = 96 \<longleftrightarrow> c = CHR 0x60"
    by (metis of_char_eq_iff)
  moreover have "scalar (of_char c)"
  proof -
    have "(of_char c :: nat) < 256" by simp
    then have "(of_char c :: nat) < 55296" by linarith
    then show ?thesis by (simp add: scalar_def)
  qed
  ultimately show ?thesis by (simp add: plain_def)
qed

lemma plain_py: "list_all plain (py s) = list_all (\<lambda>c. c \<noteq> CHR 0x60) s"
  by (simp add: py_def list_all_iff plain_of_char)

lemma plain_scalar: "list_all plain s \<Longrightarrow> list_all scalar s"
  by (induction s) (simp_all add: plain_def)

lemma plain_no_backtick: "list_all plain s \<Longrightarrow> 96 \<notin> set s"
  by (induction s) (auto simp: plain_def)

lemma count_py: "count_list (py s) (of_char c) = count_list s c"
  by (induction s) (simp_all add: py_Cons)

lemma count_py_brackets:
  "count_list (py s) 123 = count_list s (CHR ''{'')"
  "count_list (py s) 125 = count_list s (CHR ''}'')"
  "count_list (py s) 40 = count_list s (CHR ''('')"
  "count_list (py s) 41 = count_list s (CHR '')'')"
  using count_py [of s "CHR ''{''"] count_py [of s "CHR ''}''"]
    count_py [of s "CHR ''(''"] count_py [of s "CHR '')''"]
  by simp_all

lemma no_brackets_counts:
  assumes "no_brackets v"
  shows "count_list v 123 = 0" "count_list v 125 = 0" "count_list v 40 = 0" "count_list v 41 = 0"
  using assms by (simp_all add: no_brackets_def)

lemma no_brackets_py:
  "no_brackets (py s) = (count_list s (CHR ''{'') = 0 \<and> count_list s (CHR ''}'') = 0
      \<and> count_list s (CHR ''('') = 0 \<and> count_list s (CHR '')'') = 0)"
  unfolding no_brackets_def count_list_0_iff [symmetric] count_py_brackets by simp

lemma set_py_replace: "set (py_replace old [] s) \<subseteq> set s"
proof (induction old "[] :: pystr" s rule: py_replace.induct)
  case (1 old)
  show ?case by simp
next
  case (2 old c cs)
  show ?case
  proof (cases "old \<noteq> [] \<and> starts_with old (c # cs)")
    case True
    with 2 have "set (py_replace old [] (drop (length old - 1) cs)) \<subseteq> set (drop (length old - 1) cs)"
      by simp
    also have "\<dots> \<subseteq> set cs" by (rule set_drop_subset)
    finally show ?thesis using True by auto
  next
    case False
    with 2 show ?thesis by auto
  qed
qed

lemma py_replace_plain: "list_all plain s \<Longrightarrow> list_all plain (py_replace old [] s)"
  using set_py_replace [of old s] by (auto simp: list_all_iff)

lemma py_replace_no_brackets: "no_brackets s \<Longrightarrow> no_brackets (py_replace old [] s)"
  using set_py_replace [of old s] by (auto simp: no_brackets_def)

lemma mock_typescript_good:
  assumes "list_all plain c" "no_brackets c" "list_all plain s" "no_brackets s"
  shows "mock_typescript c s \<noteq> []"
    and "list_all plain (mock_typescript c s)"
    and "balance_errors (py ''typescript'') (mock_typescript c s) = []"
proof -
  show "mock_typescript c s \<noteq> []"
    by (simp add: mock_typescript_def)
  show "list_all plain (mock_typescript c s)"
    using assms(1,3) py_replace_plain [OF assms(3), of "py ''app-''"]
    by (simp add: mock_typescript_def plain_py plain_def scalar_def)
  show "balance_errors (py ''typescript'') (mock_typescript c s) = []"
    using no_brackets_counts [OF assms(2)] no_brackets_counts [OF assms(4)]
      no_brackets_counts [OF py_replace_no_brackets [OF assms(4), of "py ''app-''"]]
    by (simp add: balance_errors_def mock_typescript_def count_py_brackets)
qed

lemma mock_css_good:
  assumes "list_all plain c" "no_brackets c" "list_all plain p" "no_brackets p"
    "list_all plain f" "no_brackets f"
  shows "list_all plain (mock_css c p f)"
    and "balance_errors (py ''css'') (mock_css c p f) = []"
proof -
  show "list_all plain (mock_css c p f)"
    using assms(1,3,5) by (simp add: mock_css_def plain_py plain_def scalar_def)
  show "balance_errors (py ''css'') (mock_css c p f) = []"
    using no_brackets_counts [OF assms(2)] no_brackets_counts [OF assms(4)]
      no_brackets_counts [OF assms(6)]
    by (simp add: balance_errors_def mock_css_def count_py_brackets)
qed

lemma py_lower_append: "py_lower (a @ b) = py_lower a @ py_lower b"
  by (simp add: py_lower_def)

lemma mock_css_contains_primary:
  "is_substring (py_lower p) (py_lower (html @ mock_css c p f))"
proof -
  have "py_lower (html @ mock_css c p f) =
      (py_lower html @ py_lower (py ''/* '' @ c @ py '' styles '' @ [8212] @ py '' using ''))
      @ py_lower p @ py_lower (py '' primary token */ * { font-family: '' @ f @ py ''; }'')"
    by (simp add: mock_css_def py_lower_def)
  then show ?thesis unfolding is_substring_def by blast
qed

lemma templates_plain:
  assumes "list_all plain bg" "list_all plain radius" "list_all plain primary"
  shows "list_all plain (html_register bg radius primary)"
    and "list_all plain (html_navbar primary radius)"
    and "list_all plain (html_dashboard primary radius)"
    and "list_all plain (html_profile bg radius primary)"
    and "list_all plain (html_button primary radius)"
    and "list_all plain title \<Longrightarrow> list_all plain (html_login bg radius primary title)"
  using assms
  by (simp_all add: html_register_def html_navbar_def html_dashboard_def html_profile_def
      html_button_def html_login_def plain_py plain_def scalar_def)

lemma templates_nonempty:
  "html_register bg radius primary \<noteq> []"
  "html_navbar primary radius \<noteq> []"
  "html_dashboard primary radius \<noteq> []"
  "html_profile bg radius primary \<noteq> []"
  "html_button primary radius \<noteq> []"
  "html_login bg radius primary title \<noteq> []"
  by (simp_all add: html_register_def html_navbar_def html_dashboard_def html_profile_def
      html_button_def html_login_def)

lemma mock_choice_good:
  assumes "list_all plain bg" "list_all plain radius" "list_all plain primary"
  shows "good_choice (mock_choice p primary bg radius)"
  using templates_plain [OF assms] templates_nonempty
  by (simp add: mock_choice_def Let_def plain_py no_brackets_py)


lemma str_in_appendI1: "str_in p a \<Longrightarrow> str_in p (a @ b)"
  unfolding str_in_iff is_substring_def by (metis append.assoc)

lemma str_in_appendI2: "str_in p b \<Longrightarrow> str_in p (a @ b)"
  unfolding str_in_iff is_substring_def by (metis append.assoc)

lemma button_in_prompt: "str_in (py ''button'') (py_lower (build_prompt ds user_prompt))"
proof -
  have L: "str_in (py ''button'') (py_lower (py ''2. Use Angular Material components (MatCard, MatButton, MatInput, etc.) where helpful.\<newline>''))"
    by (simp add: py_lower_def lower_cp_def py_Cons)
  show ?thesis
    unfolding build_prompt_def Let_def py_lower_append
    by (rule str_in_appendI2, rule str_in_appendI2, rule str_in_appendI2, rule str_in_appendI2,
        rule str_in_appendI2, rule str_in_appendI2, rule str_in_appendI2, rule str_in_appendI2,
        rule str_in_appendI2, rule str_in_appendI1, rule L)
qed


lemma tokens_admissible_get:
  assumes "tokens_admissible ds"
  shows "list_all plain (token_get ds (py ''primary-color'') (py ''#6366f1''))"
    and "no_brackets (token_get ds (py ''primary-color'') (py ''#6366f1''))"
    and "list_all plain (token_get ds (py ''glass-background'') (py ''rgba(255,255,255,0.1)''))"
    and "list_all plain (token_get ds (py ''border-radius'') (py ''8px''))"
    and "list_all plain (token_get ds (py ''font-family'') (py ''Inter, sans-serif''))"
    and "no_brackets (token_get ds (py ''font-family'') (py ''Inter, sans-serif''))"
  using assms
  by (auto simp: tokens_admissible_def recognized_tokens_def token_get_def token_text_def
      plain_py no_brackets_py split: option.splits)

lemma keys_plain:
  "list_all plain (py ''html'')" "list_all plain (py ''css'')" "list_all plain (py ''typescript'')"
  by (simp_all add: plain_py)

lemma mock_dict_valid:
  assumes html: "html \<noteq> []" "list_all plain html"
    and css: "list_all plain css" "balance_errors (py ''css'') css = []"
    and ts: "t \<noteq> []" "list_all plain t" "balance_errors (py ''typescript'') t = []"
  shows "validate ds (dumps [(py ''html'', html), (py ''css'', css), (py ''typescript'', t)]) =
           Inr (design_errors ds html css,
                Some (artifact_of [(py ''html'', html), (py ''css'', css), (py ''typescript'', t)]))"
proof -
  let ?kvs = "[(py ''html'', html), (py ''css'', css), (py ''typescript'', t)]"
  let ?doc = "[(py ''html'', JStr html), (py ''css'', JStr css), (py ''typescript'', JStr t)]"
  have "clean_raw (dumps ?kvs) = dumps ?kvs"
    using html(2) css(1) ts(2) keys_plain by (intro clean_raw_dumps3 plain_no_backtick)
  moreover have "json_loads (dumps ?kvs) = Some (JDict ?doc)"
    using html(2) css(1) ts(2) keys_plain by (intro loads_dumps3 plain_scalar) simp_all
  moreover have "validate_parsed ds (JDict ?doc) =
      Inr (balance_errors (py ''typescript'') t @ balance_errors (py ''css'') css
           @ design_errors ds html css, Some (JDict ?doc))"
    using html(1) ts(1) by (intro validate_parsed_strings) simp_all
  ultimately show ?thesis
    using css(2) ts(3) by (simp add: validate_def artifact_of_def)
qed

lemma mock_valid:
  assumes "tokens_admissible ds"
  shows "validate ds (mock_for_prompt ds prompt) = Inr ([], Some (artifact_of (mock_dict ds prompt)))"
proof -
  define primary where "primary = token_get ds (py ''primary-color'') (py ''#6366f1'')"
  define bg where "bg = token_get ds (py ''glass-background'') (py ''rgba(255,255,255,0.1)'')"
  define radius where "radius = token_get ds (py ''border-radius'') (py ''8px'')"
  define font where "font = token_get ds (py ''font-family'') (py ''Inter, sans-serif'')"
  note tk = tokens_admissible_get [OF assms, folded primary_def bg_def radius_def font_def]
  obtain html c s where ch: "mock_choice (py_lower prompt) primary bg radius = (html, c, s)"
    by (cases "mock_choice (py_lower prompt) primary bg radius") blast
  have good: "good_choice (html, c, s)"
    using mock_choice_good [OF tk(3) tk(4) tk(1), of "py_lower prompt"] ch by simp
  have md: "mock_dict ds prompt =
      [(py ''html'', html), (py ''css'', mock_css c primary font), (py ''typescript'', mock_typescript c s)]"
    by (simp add: mock_dict_def Let_def ch
        primary_def [symmetric] bg_def [symmetric] radius_def [symmetric] font_def [symmetric])
  have de: "design_errors ds html (mock_css c primary font) = []"
  proof (cases "map_of (tokens ds) (py ''primary-color'')")
    case None
    then show ?thesis by (simp add: design_errors_def)
  next
    case (Some v)
    then have "primary = v" by (simp add: primary_def token_get_def)
    with Some show ?thesis
      using mock_css_contains_primary [of v html c font] by (simp add: design_errors_def)
  qed
  have "validate ds (dumps (mock_dict ds prompt)) =
      Inr (design_errors ds html (mock_css c primary font), Some (artifact_of (mock_dict ds prompt)))"
    unfolding md using good tk(1,2,5,6)
    by (intro mock_dict_valid mock_css_good mock_typescript_good) simp_all
  then show ?thesis by (simp add: mock_for_prompt_def de)
qed

lemma try_providers_empty: "try_providers [] ps n prompt = None"
  by (induction ps) simp_all

lemma call_llm_offline: "clients g = [] \<Longrightarrow> call_llm g n prompt = mock_for_prompt (design g) prompt"
  by (simp add: call_llm_def try_providers_empty)

lemma loop_success:
  assumes "a \<le> r" and "validate (design g) (call_llm g a p) = Inr ([], art)"
  shows "attempt_loop g r a p =
           (attempt_head a r @ [Success (py ''Validation passed!'') art], Inr art)"
  using assms by (subst attempt_loop.simps) simp


section \<open>The attempt loop\<close>
















section \<open>Runs without a provider\<close>

text \<open>
  C10, as amended. When every recognized token of the design system is admissible, the
  text of the offline generator passes the validation with no error, for every prompt, and
  the artifact is the generator's dict; hence a run without a provider and with a ceiling
  of at least 1 yields the opening events of the first attempt and then \<open>Success\<close>.
\<close>

theorem offline_mock_validates:
  assumes "tokens_admissible ds"
  shows "validate ds (mock_for_prompt ds prompt) =
           Inr ([], Some (artifact_of (mock_dict ds prompt)))
         \<and> (design g = ds \<and> clients g = [] \<and> 1 \<le> r \<longrightarrow>
              orchestrate_agentic_loop g user_prompt r history =
                (attempt_head 1 r
                 @ [Success (py ''Validation passed!'')
                      (Some (artifact_of (mock_dict ds
                         (build_prompt ds (full_prompt user_prompt history)))))],
                 Inr (Some (artifact_of (mock_dict ds
                         (build_prompt ds (full_prompt user_prompt history)))))))"
proof (intro conjI impI)
  show "validate ds (mock_for_prompt ds prompt) = Inr ([], Some (artifact_of (mock_dict ds prompt)))"
    using assms by (rule mock_valid)
next
  assume g: "design g = ds \<and> clients g = [] \<and> 1 \<le> r"
  let ?p = "build_prompt ds (full_prompt user_prompt history)"
  have "validate (design g) (call_llm g 1 ?p) = Inr ([], Some (artifact_of (mock_dict ds ?p)))"
    using g mock_valid [OF assms, of ?p] by (simp add: call_llm_offline)
  with g show "orchestrate_agentic_loop g user_prompt r history =
      (attempt_head 1 r @ [Success (py ''Validation passed!'') (Some (artifact_of (mock_dict ds ?p)))],
       Inr (Some (artifact_of (mock_dict ds ?p))))"
    unfolding orchestrate_agentic_loop_def by (simp add: loop_success)
qed

lemma tokens_111_admissible: "tokens_admissible tokens_111"
  by (simp add: tokens_admissible_def recognized_tokens_def tokens_111_def token_text_def
      plain_py no_brackets_py)

theorem offline_mock_validates_witness:
  "tokens_admissible tokens_111
   \<and> validate tokens_111 (mock_for_prompt tokens_111 (py ''login'')) =
       Inr ([], Some (artifact_of (mock_dict tokens_111 (py ''login''))))
   \<and> fst (orchestrate_agentic_loop offline_111 (py ''login'') 3 []) =
       attempt_head 1 3
       @ [Success (py ''Validation passed!'')
            (Some (artifact_of (mock_dict tokens_111
               (build_prompt tokens_111 (full_prompt (py ''login'') [])))))]"
  using offline_mock_validates [OF tokens_111_admissible, of "py ''login''" offline_111 3 "py ''login''" "[]"]
    tokens_111_admissible
  by (simp add: offline_111_def)


end
